theory Spec2Isabelle
  imports
    Complex_Main
    "HOL-Library.AList"
    "HOL-Library.Multiset"
    "HOL-Library.Char_ord"
    "HOL-Library.List_Lexorder"
    "HOL-Library.Log_Nat"
    "HOL-Library.Sublist"
begin

section \<open>FIFO cost-basis accounting of the DCA tracker (utils/finance)\<close>

text \<open>
  The embedding follows \<^verbatim>\<open>computePnL\<close>, \<^verbatim>\<open>computeTotals\<close> and
  \<^verbatim>\<open>computeMonthlyHistory\<close> of the finance helpers.

  \<^item> A JavaScript number is modelled as a \<^typ>\<open>real\<close>; \<^verbatim>\<open>NaN\<close> and the infinities
    do not exist in the model. The arithmetic of the ledger and of the summariser is exact.
    The additions of \<^verbatim>\<open>computeTotals\<close> round to the nearest double, as the additions
    of the source do: what is stated about the order of these additions depends on it.
  \<^item> A JavaScript object used as a dictionary (\<^verbatim>\<open>lotsByAsset\<close>,
    \<^verbatim>\<open>realisedByAsset\<close>, \<^verbatim>\<open>result\<close>) is an association list whose keys stand
    in insertion order, the order \<^verbatim>\<open>Object.keys\<close> enumerates symbol-like keys in.
    Asset symbols are upper-case symbols such as \<^verbatim>\<open>BTC\<close>; they never name an
    inherited property of \<^verbatim>\<open>Object.prototype\<close>.
  \<^item> The price map is only read, so it is a partial map.
  \<^item> Dates are the ISO strings \<^verbatim>\<open>YYYY-MM-DD\<close> the source assumes.
\<close>

subsection \<open>Data\<close>

record lot =
  quantity :: real
  price :: real

record transaction =
  date :: string
  platform :: string
  asset :: string
  type :: string
  price :: real
  quantity :: real

record summary =
  quantity :: real
  invested :: real
  currentPrice :: real
  "value" :: real
  realised :: real
  unrealised :: real
  pnl :: real
  costAvg :: real
  pnlPercent :: "real option"

record totals =
  invested :: real
  "value" :: real
  realised :: real
  unrealised :: real
  pnl :: real

record entry =
  month :: string
  invested :: real
  "value" :: real
  realised :: real
  unrealised :: real
  pnl :: real
  return :: real

text \<open>The two dictionaries \<^verbatim>\<open>computePnL\<close> fills while it replays the transactions.\<close>

record ledger =
  lotsByAsset :: "(string \<times> lot list) list"
  realisedByAsset :: "(string \<times> real) list"

type_synonym prices = "string \<rightharpoonup> real"

subsection \<open>Dates\<close>

text \<open>
  \<^verbatim>\<open>new Date('YYYY-MM-DD')\<close> is midnight UTC of that day; subtracting two dates
  subtracts their time values in milliseconds. \<open>daysFromCivil\<close> is the number of days
  from 1970-01-01 to the given day of the proleptic Gregorian calendar.
\<close>

definition digitVal :: "char \<Rightarrow> int" where
  "digitVal c = int (of_char c) - 48"

definition number :: "string \<Rightarrow> int" where
  "number s = foldl (\<lambda>n c. 10 * n + digitVal c) 0 s"

definition daysFromCivil :: "int \<Rightarrow> int \<Rightarrow> int \<Rightarrow> int" where
  "daysFromCivil y m d =
     (let y' = (if m \<le> 2 then y - 1 else y);
          era = y' div 400;
          yoe = y' - era * 400;
          doy = (153 * (if m > 2 then m - 3 else m + 9) + 2) div 5 + d - 1;
          doe = yoe * 365 + yoe div 4 - yoe div 100 + doy
      in era * 146097 + doe - 719468)"

definition dateValue :: "string \<Rightarrow> int" where
  "dateValue s =
     daysFromCivil (number (take 4 s)) (number (take 2 (drop 5 s))) (number (take 2 (drop 8 s)))
       * 86400000"

text \<open>\<^verbatim>\<open>tx.date.slice(0, 7)\<close>, the month key \<^verbatim>\<open>YYYY-MM\<close>.\<close>

definition monthKey :: "transaction \<Rightarrow> string" where
  "monthKey tx = take 7 (date tx)"

subsection \<open>The lot ledger\<close>

text \<open>
  The \<^verbatim>\<open>while\<close> loop of a SELL. \<open>lots\<close> is the asset's queue, oldest lot first;
  the loop mutates the head lot and shifts it off once its quantity is at most
  \<^verbatim>\<open>1e-8\<close>. It returns the queue and the realised accumulator it leaves behind.
\<close>

function sellLoop :: "real \<Rightarrow> real \<Rightarrow> lot list \<Rightarrow> real \<Rightarrow> lot list \<times> real" where
  "sellLoop sellPrice qtyToSell [] acc = ([], acc)"
| "sellLoop sellPrice qtyToSell (l # rest) acc =
     (if qtyToSell > 0 then
        (let sellQty = min (lot.quantity l) qtyToSell;
             acc' = acc + sellQty * (sellPrice - lot.price l);
             l' = l\<lparr>lot.quantity := lot.quantity l - sellQty\<rparr>;
             qtyToSell' = qtyToSell - sellQty
         in if lot.quantity l' \<le> 1 / 10 ^ 8
            then sellLoop sellPrice qtyToSell' rest acc'
            else sellLoop sellPrice qtyToSell' (l' # rest) acc')
      else (l # rest, acc))"
  by pat_completeness auto
termination
  by (relation "measure (\<lambda>(p, q, lots, r). 2 * length lots + (if q > 0 then 1 else 0))")
     (auto simp: min_def split: if_splits)

text \<open>Reading a dictionary entry that may be missing.\<close>

definition lotsOf :: "(string \<times> lot list) list \<Rightarrow> string \<Rightarrow> lot list" where
  "lotsOf d a = (case map_of d a of None \<Rightarrow> [] | Some ls \<Rightarrow> ls)"

definition realisedOf :: "(string \<times> real) list \<Rightarrow> string \<Rightarrow> real" where
  "realisedOf d a = (case map_of d a of None \<Rightarrow> 0 | Some r \<Rightarrow> r)"

text \<open>
  One iteration of the replay loop. Both dictionaries get their entry for the asset
  before the type of the transaction is looked at: \<^verbatim>\<open>![]\<close> is false, so an existing
  queue is kept, and \<^verbatim>\<open>!0\<close> is true, so a realised value of 0 is assigned again.
  A type that is neither \<^verbatim>\<open>'BUY'\<close> nor \<^verbatim>\<open>'SELL'\<close> changes nothing else.
\<close>

definition applyTx :: "ledger \<Rightarrow> transaction \<Rightarrow> ledger" where
  "applyTx st tx =
     (let a = asset tx;
          lotsB = (case map_of (lotsByAsset st) a of
                     None \<Rightarrow> AList.update a [] (lotsByAsset st)
                   | Some ls \<Rightarrow> lotsByAsset st);
          realB = (case map_of (realisedByAsset st) a of
                     None \<Rightarrow> AList.update a 0 (realisedByAsset st)
                   | Some r \<Rightarrow> if r = 0 then AList.update a 0 (realisedByAsset st)
                              else realisedByAsset st)
      in if type tx = ''BUY'' then
           \<lparr>lotsByAsset =
              AList.update a
                (lotsOf lotsB a @ [\<lparr>lot.quantity = transaction.quantity tx,
                                   lot.price = transaction.price tx\<rparr>]) lotsB,
            realisedByAsset = realB\<rparr>
         else if type tx = ''SELL'' then
           (let (lots', acc') =
                  sellLoop (transaction.price tx) (transaction.quantity tx)
                    (lotsOf lotsB a) (realisedOf realB a)
            in \<lparr>lotsByAsset = AList.update a lots' lotsB,
                realisedByAsset = AList.update a acc' realB\<rparr>)
         else \<lparr>lotsByAsset = lotsB, realisedByAsset = realB\<rparr>)"

definition emptyLedger :: ledger where
  "emptyLedger = \<lparr>lotsByAsset = [], realisedByAsset = []\<rparr>"

text \<open>
  \<^verbatim>\<open>[...transactions].sort((a, b) => new Date(a.date) - new Date(b.date))\<close>:
  \<^verbatim>\<open>Array.prototype.sort\<close> is stable, and the comparator orders by the time value,
  so the result is the stable sort by that key.
\<close>

definition sortByDate :: "transaction list \<Rightarrow> transaction list" where
  "sortByDate txs = sort_key (\<lambda>tx. dateValue (date tx)) txs"

definition replay :: "transaction list \<Rightarrow> ledger" where
  "replay txs = foldl applyTx emptyLedger (sortByDate txs)"

subsection \<open>The position summariser\<close>

definition summarise :: "ledger \<Rightarrow> prices \<Rightarrow> string \<Rightarrow> summary" where
  "summarise st prices a =
     (let lots = lotsOf (lotsByAsset st) a;
          totalQty = foldl (\<lambda>sum l. sum + lot.quantity l) 0 lots;
          invested = foldl (\<lambda>sum l. sum + lot.quantity l * lot.price l) 0 lots;
          currentPrice = (case prices a of None \<Rightarrow> 0 | Some p \<Rightarrow> p);
          value = currentPrice * totalQty;
          realised = realisedOf (realisedByAsset st) a;
          unrealised = value - invested;
          pnl = realised + unrealised;
          costAvg = (if totalQty > 0 then invested / totalQty else 0);
          pnlPercent = (if invested > 0 then Some ((pnl / invested) * 100) else None)
      in \<lparr>summary.quantity = totalQty,
          summary.invested = invested,
          summary.currentPrice = currentPrice,
          summary.value = value,
          summary.realised = realised,
          summary.unrealised = unrealised,
          summary.pnl = pnl,
          summary.costAvg = costAvg,
          summary.pnlPercent = pnlPercent\<rparr>)"

definition computePnL :: "transaction list \<Rightarrow> prices \<Rightarrow> (string \<times> summary) list" where
  "computePnL transactions prices =
     (let st = replay transactions
      in map (\<lambda>a. (a, summarise st prices a)) (map fst (lotsByAsset st)))"

text \<open>
  The sum of two doubles is the exact sum rounded to the nearest double, ties to the even
  significand. \<open>exponent x\<close> is the binary exponent of \<open>x\<close>, the integer \<open>e\<close> with
  \<open>2 ^ e \<le> \<bar>x\<bar> < 2 ^ (e + 1)\<close>; a double has 53 significant bits, so near \<open>x\<close> the
  doubles are the multiples of \<open>2 ^ (e - 52)\<close>. Overflow to infinity and the subnormal
  range are not modelled.
\<close>

definition roundHalfEven :: "real \<Rightarrow> int" where
  "roundHalfEven r =
     (let f = \<lfloor>r\<rfloor>; d = r - of_int f
      in if d < 1 / 2 then f else if d > 1 / 2 then f + 1 else if even f then f else f + 1)"

definition exponent :: "real \<Rightarrow> int" where
  "exponent x =
     (let a = \<bar>x\<bar>
      in if 1 \<le> a then bitlen \<lfloor>a\<rfloor> - 1 else - bitlen (\<lceil>1 / a\<rceil> - 1))"

definition roundDouble :: "real \<Rightarrow> real" where
  "roundDouble x =
     (if x = 0 then 0
      else (let u = 2 powi (exponent x - 52)
            in of_int (roundHalfEven (x / u)) * u))"

definition doubleAdd :: "real \<Rightarrow> real \<Rightarrow> real" where
  "doubleAdd x y = roundDouble (x + y)"

text \<open>\<^verbatim>\<open>computeTotals\<close>: five running sums, updated with \<^verbatim>\<open>+=\<close> in key order.\<close>

definition computeTotals :: "(string \<times> summary) list \<Rightarrow> totals" where
  "computeTotals summ =
     foldl (\<lambda>t (a, s).
              \<lparr>totals.invested = doubleAdd (totals.invested t) (summary.invested s),
               totals.value = doubleAdd (totals.value t) (summary.value s),
               totals.realised = doubleAdd (totals.realised t) (summary.realised s),
               totals.unrealised = doubleAdd (totals.unrealised t) (summary.unrealised s),
               totals.pnl = doubleAdd (totals.pnl t) (summary.pnl s)\<rparr>)
       \<lparr>totals.invested = 0, totals.value = 0, totals.realised = 0,
        totals.unrealised = 0, totals.pnl = 0\<rparr>
       summ"

subsection \<open>The monthly history\<close>

text \<open>
  \<^verbatim>\<open>Array.from(new Set(...)).sort()\<close>: the distinct month keys in ascending order
  of their strings. Which occurrence of a repeated key is kept does not matter, since the
  list is sorted afterwards.
\<close>

definition months :: "transaction list \<Rightarrow> string list" where
  "months transactions = sort (remdups (map monthKey transactions))"

definition uptoMonth :: "transaction list \<Rightarrow> string \<Rightarrow> transaction list" where
  "uptoMonth transactions m = filter (\<lambda>tx. monthKey tx \<le> m) transactions"

fun historyLoop ::
  "transaction list \<Rightarrow> prices \<Rightarrow> real \<Rightarrow> real \<Rightarrow> string list \<Rightarrow> entry list" where
  "historyLoop transactions prices prevPortfolioValue prevInvested [] = []"
| "historyLoop transactions prices prevPortfolioValue prevInvested (m # ms) =
     (let summ = computePnL (uptoMonth transactions m) prices;
          tot = computeTotals summ;
          portfolioValue = totals.value tot + totals.realised tot;
          newContrib = totals.invested tot - prevInvested;
          periodReturn =
            (if prevPortfolioValue > 0
             then (portfolioValue - prevPortfolioValue - newContrib) / prevPortfolioValue
             else 0)
      in \<lparr>entry.month = m,
          entry.invested = totals.invested tot,
          entry.value = totals.value tot,
          entry.realised = totals.realised tot,
          entry.unrealised = totals.unrealised tot,
          entry.pnl = totals.pnl tot,
          entry.return = periodReturn * 100\<rparr>
         # historyLoop transactions prices portfolioValue (totals.invested tot) ms)"

definition computeMonthlyHistory :: "transaction list \<Rightarrow> prices \<Rightarrow> entry list" where
  "computeMonthlyHistory transactions prices =
     historyLoop transactions prices 0 0 (months transactions)"

subsection \<open>One asset at a time\<close>

text \<open>
  What a transaction does to the queue and the realised accumulator of its own asset,
  and the entry of one asset in the two dictionaries. They are used to reason about the
  replay asset by asset.
\<close>

definition assetStep :: "lot list \<times> real \<Rightarrow> transaction \<Rightarrow> lot list \<times> real" where
  "assetStep v tx =
     (if type tx = ''BUY'' then
        (fst v @ [\<lparr>lot.quantity = transaction.quantity tx, lot.price = transaction.price tx\<rparr>],
         snd v)
      else if type tx = ''SELL'' then
        sellLoop (transaction.price tx) (transaction.quantity tx) (fst v) (snd v)
      else v)"

definition view :: "ledger \<Rightarrow> string \<Rightarrow> lot list \<times> real" where
  "view st a = (lotsOf (lotsByAsset st) a, realisedOf (realisedByAsset st) a)"

subsection \<open>What the specification speaks of\<close>

text \<open>
  The lot ledger in the words of the specification, for one asset. The queue holds the open
  lots in the order of their acquisition: a BUY puts its lot behind all earlier lots. A
  sale of quantity \<open>q\<close> consumes portions from the front of the queue, the oldest lot
  first, each portion with the acquisition price of its lot (\<open>fifoPortions\<close>), and leaves
  the queue \<open>fifoRest\<close>: a lot consumed down to at most \<^verbatim>\<open>1e-8\<close> is removed. The gain of
  a sale is the sum over its portions of consumed quantity times (sell price minus lot
  price). The realised PnL of an asset is the sum of these gains over the SELL events of
  the asset, the transactions taken by date ascending and by input order within a date,
  each sale against the queue built from the transactions before it.
\<close>

fun fifoPortions :: "real \<Rightarrow> lot list \<Rightarrow> (real \<times> real) list" where
  "fifoPortions q [] = []"
| "fifoPortions q (l # ls) =
     (if q > 0 then
        (let consumed = min (lot.quantity l) q
         in (consumed, lot.price l) # fifoPortions (q - consumed) ls)
      else [])"

fun fifoRest :: "real \<Rightarrow> lot list \<Rightarrow> lot list" where
  "fifoRest q [] = []"
| "fifoRest q (l # ls) =
     (if q > 0 then
        (let consumed = min (lot.quantity l) q;
             left = lot.quantity l - consumed
         in if left \<le> 1 / 10 ^ 8 then fifoRest (q - consumed) ls
            else l\<lparr>lot.quantity := left\<rparr> # ls)
      else l # ls)"

definition saleGain :: "real \<Rightarrow> (real \<times> real) list \<Rightarrow> real" where
  "saleGain sellPrice portions = (\<Sum>(consumed, lotPrice)\<leftarrow>portions. consumed * (sellPrice - lotPrice))"

definition queueStep :: "lot list \<Rightarrow> transaction \<Rightarrow> lot list" where
  "queueStep queue tx =
     (if type tx = ''BUY'' then
        queue @ [\<lparr>lot.quantity = transaction.quantity tx, lot.price = transaction.price tx\<rparr>]
      else if type tx = ''SELL'' then fifoRest (transaction.quantity tx) queue
      else queue)"

definition fifoQueue :: "string \<Rightarrow> transaction list \<Rightarrow> lot list" where
  "fifoQueue a txs = foldl queueStep [] (filter (\<lambda>tx. asset tx = a) txs)"

definition realisedInOrder :: "transaction list \<Rightarrow> string \<Rightarrow> real" where
  "realisedInOrder txs a =
     (\<Sum>i\<leftarrow>[0..<length txs].
        (let tx = txs ! i
         in if asset tx = a \<and> type tx = ''SELL''
            then saleGain (transaction.price tx)
                   (fifoPortions (transaction.quantity tx) (fifoQueue a (take i txs)))
            else 0))"

definition realisedSpec :: "transaction list \<Rightarrow> string \<Rightarrow> real" where
  "realisedSpec txs a = realisedInOrder (sort_key (\<lambda>tx. dateValue (date tx)) txs) a"

text \<open>
  Prices and quantities that are not negative; the total quantity bought and sold of an
  asset; the quantity left in its open lots after the replay; and the running balance
  that adds each BUY and subtracts each SELL, floored at 0 at that sale.
\<close>

definition nonNegTx :: "transaction \<Rightarrow> bool" where
  "nonNegTx tx = (0 \<le> transaction.price tx \<and> 0 \<le> transaction.quantity tx)"

definition nonNegative :: "transaction list \<Rightarrow> bool" where
  "nonNegative txs = list_all nonNegTx txs"







definition okLot :: "lot \<Rightarrow> bool" where
  "okLot l = (0 \<le> lot.quantity l \<and> 0 \<le> lot.price l)"

text \<open>
  The totals as exact sums, and summaries whose amounts are whole numbers that add up, in
  absolute value, to less than \<open>2 ^ 53\<close> in each of the five columns: on these no
  addition of \<^verbatim>\<open>computeTotals\<close> rounds.
\<close>

definition exactTotals :: "(string \<times> summary) list \<Rightarrow> totals" where
  "exactTotals summ =
     \<lparr>totals.invested = (\<Sum>(a, s)\<leftarrow>summ. summary.invested s),
      totals.value = (\<Sum>(a, s)\<leftarrow>summ. summary.value s),
      totals.realised = (\<Sum>(a, s)\<leftarrow>summ. summary.realised s),
      totals.unrealised = (\<Sum>(a, s)\<leftarrow>summ. summary.unrealised s),
      totals.pnl = (\<Sum>(a, s)\<leftarrow>summ. summary.pnl s)\<rparr>"

definition whole :: "real \<Rightarrow> bool" where
  "whole x = (of_int \<lfloor>x\<rfloor> = x)"

definition wholeColumn :: "real list \<Rightarrow> bool" where
  "wholeColumn xs = (list_all whole xs \<and> sum_list (map abs xs) < 9007199254740992)"

definition wholeAmounts :: "(string \<times> summary) list \<Rightarrow> bool" where
  "wholeAmounts summ =
     (wholeColumn (map (\<lambda>(a, s). summary.invested s) summ) \<and>
      wholeColumn (map (\<lambda>(a, s). summary.value s) summ) \<and>
      wholeColumn (map (\<lambda>(a, s). summary.realised s) summ) \<and>
      wholeColumn (map (\<lambda>(a, s). summary.unrealised s) summ) \<and>
      wholeColumn (map (\<lambda>(a, s). summary.pnl s) summ))"

text \<open>The totals of the transactions up to and including a month.\<close>

definition totalsUpto :: "transaction list \<Rightarrow> prices \<Rightarrow> string \<Rightarrow> totals" where
  "totalsUpto txs prices m = computeTotals (computePnL (uptoMonth txs m) prices)"

subsection \<open>Example transactions\<close>

text \<open>A BUY and a SELL as the transaction form submits them, for the worked examples.\<close>

abbreviation buy :: "string \<Rightarrow> string \<Rightarrow> real \<Rightarrow> real \<Rightarrow> transaction" where
  "buy d a q p \<equiv>
     \<lparr>date = d, platform = ''Bitget'', asset = a, type = ''BUY'', price = p, quantity = q\<rparr>"

abbreviation sell :: "string \<Rightarrow> string \<Rightarrow> real \<Rightarrow> real \<Rightarrow> transaction" where
  "sell d a q p \<equiv>
     \<lparr>date = d, platform = ''Bitget'', asset = a, type = ''SELL'', price = p, quantity = q\<rparr>"

section \<open>Properties\<close>

subsection \<open>The dictionaries, asset by asset\<close>

lemma lotsOf_update [simp]:
  "lotsOf (AList.update k v d) a = (if a = k then v else lotsOf d a)"
  by (simp add: lotsOf_def update_conv')

lemma realisedOf_update [simp]:
  "realisedOf (AList.update k v d) a = (if a = k then v else realisedOf d a)"
  by (simp add: realisedOf_def update_conv')

lemma lotsOf_init:
  "lotsOf (case map_of d k of None \<Rightarrow> AList.update k [] d | Some ls \<Rightarrow> d) a = lotsOf d a"
  by (cases "map_of d k") (simp_all add: lotsOf_def update_conv')

lemma realisedOf_init:
  "realisedOf (case map_of d k of None \<Rightarrow> AList.update k 0 d
                | Some r \<Rightarrow> if r = 0 then AList.update k 0 d else d) a = realisedOf d a"
  by (cases "map_of d k") (simp_all add: realisedOf_def update_conv')

lemma view_applyTx:
  "view (applyTx st tx) a = (if asset tx = a then assetStep (view st a) tx else view st a)"
proof -
  define lotsB where "lotsB = (case map_of (lotsByAsset st) (asset tx) of
                     None \<Rightarrow> AList.update (asset tx) [] (lotsByAsset st)
                   | Some ls \<Rightarrow> lotsByAsset st)"
  define realB where "realB = (case map_of (realisedByAsset st) (asset tx) of
                     None \<Rightarrow> AList.update (asset tx) 0 (realisedByAsset st)
                   | Some r \<Rightarrow> if r = 0 then AList.update (asset tx) 0 (realisedByAsset st)
                              else realisedByAsset st)"
  have l: "lotsOf lotsB b = lotsOf (lotsByAsset st) b" for b
    unfolding lotsB_def by (rule lotsOf_init)
  have r: "realisedOf realB b = realisedOf (realisedByAsset st) b" for b
    unfolding realB_def by (rule realisedOf_init)
  have "applyTx st tx =
      (if type tx = ''BUY'' then
           \<lparr>lotsByAsset =
              AList.update (asset tx)
                (lotsOf lotsB (asset tx) @ [\<lparr>lot.quantity = transaction.quantity tx,
                                   lot.price = transaction.price tx\<rparr>]) lotsB,
            realisedByAsset = realB\<rparr>
         else if type tx = ''SELL'' then
           (let (lots', acc') =
                  sellLoop (transaction.price tx) (transaction.quantity tx)
                    (lotsOf lotsB (asset tx)) (realisedOf realB (asset tx))
            in \<lparr>lotsByAsset = AList.update (asset tx) lots' lotsB,
                realisedByAsset = AList.update (asset tx) acc' realB\<rparr>)
         else \<lparr>lotsByAsset = lotsB, realisedByAsset = realB\<rparr>)"
    by (simp add: applyTx_def Let_def lotsB_def realB_def)
  then show ?thesis
    by (simp add: view_def assetStep_def l r split: prod.splits)
qed

lemma view_foldl:
  "view (foldl applyTx st txs) a =
     foldl assetStep (view st a) (filter (\<lambda>tx. asset tx = a) txs)"
  by (induction txs arbitrary: st) (simp_all add: view_applyTx)

lemma keys_update: "fst ` set (AList.update k v al) = insert k (fst ` set al)"
  by (simp add: dom_update)

lemma keys_applyTx:
  "fst ` set (lotsByAsset (applyTx st tx)) = insert (asset tx) (fst ` set (lotsByAsset st))"
proof -
  define lotsB where "lotsB = (case map_of (lotsByAsset st) (asset tx) of
                     None \<Rightarrow> AList.update (asset tx) [] (lotsByAsset st)
                   | Some ls \<Rightarrow> lotsByAsset st)"
  have "fst ` set lotsB = insert (asset tx) (fst ` set (lotsByAsset st))"
    by (auto simp: lotsB_def keys_update split: option.splits dest: map_of_SomeD
             intro: rev_image_eqI)
  then show ?thesis
    by (simp add: applyTx_def Let_def keys_update split: prod.splits flip: lotsB_def)
qed

lemma keys_foldl:
  "fst ` set (lotsByAsset (foldl applyTx st txs)) =
     fst ` set (lotsByAsset st) \<union> asset ` set txs"
  by (induction txs arbitrary: st) (simp_all add: keys_applyTx)

lemma set_sortByDate [simp]: "set (sortByDate txs) = set txs"
  by (simp add: sortByDate_def)

lemma keys_replay: "fst ` set (lotsByAsset (replay txs)) = asset ` set txs"
  by (simp add: replay_def keys_foldl emptyLedger_def)

lemma sellLoop_nonpos: "q \<le> 0 \<Longrightarrow> sellLoop p q lots acc = (lots, acc)"
  by (cases lots) simp_all

lemma computePnL_lookup:
  "map_of (computePnL txs prices) a = Some s \<Longrightarrow> s = summarise (replay txs) prices a"
  by (auto simp: computePnL_def Let_def dest!: map_of_SomeD)

lemma keys_computePnL: "fst ` set (computePnL txs prices) = asset ` set txs"
proof -
  have "fst ` set (computePnL txs prices) = fst ` set (lotsByAsset (replay txs))"
    by (force simp: computePnL_def Let_def)
  then show ?thesis by (simp add: keys_replay)
qed

subsection \<open>The sell loop\<close>

lemma sellLoop_gain:
  "snd (sellLoop p q lots acc) = acc + saleGain p (fifoPortions q lots)"
proof (induction p q lots acc rule: sellLoop.induct)
  case (1 p q acc)
  show ?case by (simp add: saleGain_def)
next
  case (2 p q l rest acc)
  show ?case
  proof (cases "q > 0")
    case False
    then show ?thesis by (simp add: saleGain_def)
  next
    case q: True
    show ?thesis
    proof (cases "lot.quantity l \<le> q")
      case True
      then have m: "min (lot.quantity l) q = lot.quantity l" by simp
      from 2(1) [OF q refl refl refl refl] q m
      show ?thesis by (simp add: saleGain_def Let_def)
    next
      case False
      then have m: "min (lot.quantity l) q = q" by simp
      have z: "sellLoop p 0 xs b = (xs, b)" for xs b by (rule sellLoop_nonpos) simp
      have f: "fifoPortions 0 xs = []" for xs by (cases xs) simp_all
      from q m show ?thesis by (simp add: saleGain_def z f Let_def)
    qed
  qed
qed

lemma sellLoop_rest: "fst (sellLoop p q lots acc) = fifoRest q lots"
proof (induction p q lots acc rule: sellLoop.induct)
  case (1 p q acc)
  show ?case by simp
next
  case (2 p q l rest acc)
  show ?case
  proof (cases "q > 0")
    case False
    then show ?thesis by simp
  next
    case q: True
    show ?thesis
    proof (cases "lot.quantity l \<le> q")
      case True
      then have m: "min (lot.quantity l) q = lot.quantity l" by simp
      from 2(1) [OF q refl refl refl refl] q m
      show ?thesis by (simp add: Let_def)
    next
      case False
      then have m: "min (lot.quantity l) q = q" by simp
      have z: "sellLoop p 0 xs b = (xs, b)" for xs b by (rule sellLoop_nonpos) simp
      have f: "fifoRest 0 xs = xs" for xs by (cases xs) simp_all
      from q m show ?thesis by (simp add: z f Let_def)
    qed
  qed
qed

lemma assetStep_queue: "fst (assetStep v tx) = queueStep (fst v) tx"
  by (simp add: assetStep_def queueStep_def sellLoop_rest)

lemma foldl_assetStep_queue: "fst (foldl assetStep v txs) = foldl queueStep (fst v) txs"
  by (induction txs arbitrary: v) (simp_all add: assetStep_queue)

lemma lots_fifoQueue:
  "lotsOf (lotsByAsset (foldl applyTx emptyLedger txs)) a = fifoQueue a txs"
  using view_foldl [of emptyLedger txs a, THEN arg_cong, of fst]
  by (simp add: foldl_assetStep_queue fifoQueue_def view_def emptyLedger_def lotsOf_def)

lemma realised_foldl:
  "realisedOf (realisedByAsset (foldl applyTx emptyLedger txs)) a = realisedInOrder txs a"
proof (induction txs rule: rev_induct)
  case Nil
  show ?case by (simp add: realisedInOrder_def emptyLedger_def realisedOf_def)
next
  case (snoc x xs)
  have pre: "(\<Sum>i\<leftarrow>[0..<length xs].
        (let tx = (xs @ [x]) ! i
         in if asset tx = a \<and> type tx = ''SELL''
            then saleGain (transaction.price tx)
                   (fifoPortions (transaction.quantity tx) (fifoQueue a (take i (xs @ [x]))))
            else 0)) = realisedInOrder xs a"
    unfolding realisedInOrder_def
    by (rule arg_cong [where f = sum_list], rule map_cong)
       (simp_all add: nth_append Let_def)
  have step: "realisedOf (realisedByAsset (applyTx st x)) a =
      (if asset x = a \<and> type x = ''SELL''
       then realisedOf (realisedByAsset st) a +
            saleGain (transaction.price x)
              (fifoPortions (transaction.quantity x) (lotsOf (lotsByAsset st) a))
       else realisedOf (realisedByAsset st) a)" for st
    using view_applyTx [of st x a, THEN arg_cong, of snd] sellLoop_gain
    by (simp add: view_def assetStep_def)
  have "realisedInOrder (xs @ [x]) a = realisedInOrder xs a +
      (if asset x = a \<and> type x = ''SELL''
       then saleGain (transaction.price x)
              (fifoPortions (transaction.quantity x) (fifoQueue a xs))
       else 0)"
    using pre by (simp add: realisedInOrder_def [of "xs @ [x]"] Let_def)
  then show ?case
    using snoc by (simp add: step lots_fifoQueue)
qed

lemma fifoRest_suffix: "suffix (map lot.price (fifoRest q lots)) (map lot.price lots)"
proof (induction lots arbitrary: q)
  case Nil
  show ?case by simp
next
  case (Cons l ls)
  show ?case
    using Cons.IH [of "q - min (lot.quantity l) q"]
    by (auto simp: Let_def intro: suffix_ConsI)
qed

lemma queue_suffix:
  "suffix (map lot.price (foldl queueStep queue txs))
     (map lot.price queue @ map transaction.price (filter (\<lambda>tx. type tx = ''BUY'') txs))"
proof (induction txs arbitrary: queue)
  case Nil
  show ?case by simp
next
  case (Cons x xs)
  show ?case
  proof (cases "type x = ''BUY''")
    case True
    with Cons.IH [of "queueStep queue x"] show ?thesis by (simp add: queueStep_def)
  next
    case False
    let ?B = "map transaction.price (filter (\<lambda>tx. type tx = ''BUY'') xs)"
    have "suffix (map lot.price (queueStep queue x)) (map lot.price queue)"
      using False by (simp add: queueStep_def fifoRest_suffix)
    then have "suffix (map lot.price (queueStep queue x) @ ?B) (map lot.price queue @ ?B)"
      by simp
    with Cons.IH [of "queueStep queue x"] False show ?thesis
      by (auto intro: suffix_order.trans)
  qed
qed

lemma open_lots_are_newest:
  "suffix (map lot.price (lotsOf (lotsByAsset (replay txs)) a))
     (map transaction.price
        (filter (\<lambda>tx. asset tx = a \<and> type tx = ''BUY'') (sortByDate txs)))"
  using queue_suffix [of "[]" "filter (\<lambda>tx. asset tx = a) (sortByDate txs)"]
  by (simp add: replay_def lots_fifoQueue fifoQueue_def)

lemma sortByDate_pair:
  "dateValue (date t1) \<le> dateValue (date t2) \<Longrightarrow> sortByDate [t1, t2] = [t1, t2]"
  by (simp add: sortByDate_def)

lemma replay_buy_sell:
  assumes "dateValue d1 \<le> dateValue d2"
  shows "replay
     [\<lparr>date = d1, platform = pf1, asset = a, type = ''BUY'', price = p1, quantity = q1\<rparr>,
      \<lparr>date = d2, platform = pf2, asset = a, type = ''SELL'', price = p2, quantity = q2\<rparr>] =
     \<lparr>lotsByAsset = [(a, fst (sellLoop p2 q2 [\<lparr>lot.quantity = q1, lot.price = p1\<rparr>] 0))],
      realisedByAsset = [(a, snd (sellLoop p2 q2 [\<lparr>lot.quantity = q1, lot.price = p1\<rparr>] 0))]\<rparr>"
  using assms
  by (simp add: replay_def sortByDate_pair applyTx_def emptyLedger_def lotsOf_def realisedOf_def
        Let_def split: prod.splits)

lemma replay_buy_buy_sell:
  assumes "0 < q \<and> dateValue d1 \<le> dateValue d2 \<and> dateValue d2 \<le> dateValue d3"
  shows "replay
     [\<lparr>date = d1, platform = pf1, asset = a, type = ''BUY'', price = p1, quantity = q\<rparr>,
      \<lparr>date = d2, platform = pf2, asset = a, type = ''BUY'', price = p2, quantity = q\<rparr>,
      \<lparr>date = d3, platform = pf3, asset = a, type = ''SELL'', price = p3, quantity = q\<rparr>] =
     \<lparr>lotsByAsset = [(a, [\<lparr>lot.quantity = q, lot.price = p2\<rparr>])],
      realisedByAsset = [(a, q * (p3 - p1))]\<rparr>"
proof -
  have s: "sortByDate
     [\<lparr>date = d1, platform = pf1, asset = a, type = ''BUY'', price = p1, quantity = q\<rparr>,
      \<lparr>date = d2, platform = pf2, asset = a, type = ''BUY'', price = p2, quantity = q\<rparr>,
      \<lparr>date = d3, platform = pf3, asset = a, type = ''SELL'', price = p3, quantity = q\<rparr>] =
     [\<lparr>date = d1, platform = pf1, asset = a, type = ''BUY'', price = p1, quantity = q\<rparr>,
      \<lparr>date = d2, platform = pf2, asset = a, type = ''BUY'', price = p2, quantity = q\<rparr>,
      \<lparr>date = d3, platform = pf3, asset = a, type = ''SELL'', price = p3, quantity = q\<rparr>]"
    using assms by (simp add: sortByDate_def)
  have l: "sellLoop p3 q [\<lparr>lot.quantity = q, lot.price = p1\<rparr>,
                          \<lparr>lot.quantity = q, lot.price = p2\<rparr>] 0 =
           ([\<lparr>lot.quantity = q, lot.price = p2\<rparr>], q * (p3 - p1))"
    using assms by (simp add: Let_def)
  show ?thesis
    unfolding replay_def s
    by (simp add: applyTx_def emptyLedger_def lotsOf_def realisedOf_def Let_def l
          del: sellLoop.simps)
qed

lemma sortByDate_sorted_stable:
  assumes "sorted (map (\<lambda>tx. dateValue (date tx)) ys)" and "mset ys = mset txs"
    and "\<And>k. filter (\<lambda>tx. dateValue (date tx) = k) ys =
              filter (\<lambda>tx. dateValue (date tx) = k) txs"
  shows "sortByDate txs = ys"
  unfolding sortByDate_def
proof (rule properties_for_sort_key)
  show "mset ys = mset txs" by (rule assms(2))
  show "sorted (map (\<lambda>tx. dateValue (date tx)) ys)" by (rule assms(1))
  fix k assume "k \<in> set ys"
  have "filter (\<lambda>x. dateValue (date x) = dateValue (date k)) ys =
        filter (\<lambda>x. dateValue (date x) = dateValue (date k)) txs"
    by (rule assms(3))
  then show "filter (\<lambda>x. dateValue (date k) = dateValue (date x)) ys =
        filter (\<lambda>x. dateValue (date k) = dateValue (date x)) txs"
    by (simp add: eq_commute)
qed

lemma replay_sell_buy:
  "replay
     [\<lparr>date = d, platform = pf2, asset = a, type = ''SELL'', price = p2, quantity = q2\<rparr>,
      \<lparr>date = d, platform = pf1, asset = a, type = ''BUY'', price = p1, quantity = q1\<rparr>] =
     \<lparr>lotsByAsset = [(a, [\<lparr>lot.quantity = q1, lot.price = p1\<rparr>])],
      realisedByAsset = [(a, 0)]\<rparr>"
  by (simp add: replay_def sortByDate_def applyTx_def emptyLedger_def lotsOf_def realisedOf_def
        Let_def)

lemma computePnL_buy_sell:
  assumes "0 \<le> q" and "dateValue d1 \<le> dateValue d2"
  shows "map (\<lambda>(k, s). (k, summary.realised s, summary.quantity s))
     (computePnL
        [\<lparr>date = d1, platform = pf1, asset = a, type = ''BUY'', price = p1, quantity = q\<rparr>,
         \<lparr>date = d2, platform = pf2, asset = a, type = ''SELL'', price = p2, quantity = q\<rparr>]
        prices) = [(a, q * (p2 - p1), 0)]"
proof (cases "q = 0")
  case True
  then have "sellLoop p2 q [\<lparr>lot.quantity = q, lot.price = p1\<rparr>] 0 =
             ([\<lparr>lot.quantity = 0, lot.price = p1\<rparr>], 0)"
    by simp
  with True show ?thesis
    by (simp add: computePnL_def replay_buy_sell [OF assms(2)] summarise_def lotsOf_def
          realisedOf_def Let_def del: sellLoop.simps)
next
  case False
  with assms(1) have "sellLoop p2 q [\<lparr>lot.quantity = q, lot.price = p1\<rparr>] 0 =
             ([], q * (p2 - p1))"
    by (simp add: Let_def)
  then show ?thesis
    by (simp add: computePnL_def replay_buy_sell [OF assms(2)] summarise_def lotsOf_def
          realisedOf_def Let_def del: sellLoop.simps)
qed

lemma sellLoop_oversell:
  "(\<forall>l\<in>set lots. 0 \<le> lot.quantity l) \<Longrightarrow> sum_list (map lot.quantity lots) < q \<Longrightarrow>
   sellLoop p q lots acc = ([], acc + (\<Sum>l\<leftarrow>lots. lot.quantity l * (p - lot.price l)))"
proof (induction lots arbitrary: q acc)
  case Nil
  show ?case by simp
next
  case (Cons l rest)
  have r: "0 \<le> sum_list (map lot.quantity rest)"
    using Cons.prems(1) by (intro sum_list_nonneg) auto
  have l: "0 \<le> lot.quantity l" using Cons.prems(1) by simp
  from r l Cons.prems(2) have q: "0 < q" "lot.quantity l \<le> q"
    "sum_list (map lot.quantity rest) < q - lot.quantity l" by simp_all
  have m: "min (lot.quantity l) q = lot.quantity l" using q(2) by simp
  have "sellLoop p q (l # rest) acc =
        sellLoop p (q - lot.quantity l) rest (acc + lot.quantity l * (p - lot.price l))"
    using q(1) m by (simp add: Let_def)
  also have "\<dots> = ([], acc + lot.quantity l * (p - lot.price l) +
                     (\<Sum>l\<leftarrow>rest. lot.quantity l * (p - lot.price l)))"
    using Cons.prems(1) q(3) by (intro Cons.IH) auto
  finally show ?case by simp
qed

lemma sellLoop_full_sale:
  "0 \<le> q \<Longrightarrow>
   snd (sellLoop p2 q [\<lparr>lot.quantity = q, lot.price = p1\<rparr>] 0) = q * (p2 - p1)"
  by (cases "q = 0") (simp_all add: Let_def)

lemma foldl_plus_sum_list:
  fixes f :: "'a \<Rightarrow> real"
  shows "foldl (\<lambda>sum l. sum + f l) z xs = z + sum_list (map f xs)"
  by (induction xs arbitrary: z) simp_all

lemma sellLoop_whole:
  "0 < q \<Longrightarrow> lot.quantity l \<le> q \<Longrightarrow>
   sellLoop p q (l # rest) acc =
     sellLoop p (q - lot.quantity l) rest (acc + lot.quantity l * (p - lot.price l))"
  by (simp add: Let_def min_absorb1)

lemma sellLoop_dust:
  "0 < q \<Longrightarrow> q < lot.quantity l \<Longrightarrow> lot.quantity l - q \<le> 1 / 10 ^ 8 \<Longrightarrow>
   sellLoop p q (l # rest) acc = (rest, acc + q * (p - lot.price l))"
  by (simp add: Let_def min_absorb2 sellLoop_nonpos)

lemma sellLoop_part:
  "0 < q \<Longrightarrow> q < lot.quantity l \<Longrightarrow> \<not> lot.quantity l - q \<le> 1 / 10 ^ 8 \<Longrightarrow>
   sellLoop p q (l # rest) acc =
     (l\<lparr>lot.quantity := lot.quantity l - q\<rparr> # rest, acc + q * (p - lot.price l))"
  by (simp add: Let_def min_absorb2 sellLoop_nonpos)

declare sellLoop.simps(2) [simp del]

lemma sellLoop_ok:
  "list_all okLot lots \<Longrightarrow> list_all okLot (fst (sellLoop p q lots acc))"
proof (induction lots arbitrary: q acc)
  case Nil
  show ?case by simp
next
  case (Cons l rest)
  have ok: "okLot l" "list_all okLot rest" using Cons.prems by simp_all
  consider "q \<le> 0" | "0 < q" "lot.quantity l \<le> q"
    | "0 < q" "q < lot.quantity l" "lot.quantity l - q \<le> 1 / 10 ^ 8"
    | "0 < q" "q < lot.quantity l" "\<not> lot.quantity l - q \<le> 1 / 10 ^ 8"
    by fastforce
  then show ?case
  proof cases
    case 1
    then show ?thesis using Cons.prems by (simp add: sellLoop_nonpos)
  next
    case 2
    then show ?thesis using Cons.IH [OF ok(2)] by (simp add: sellLoop_whole)
  next
    case 3
    then show ?thesis using ok(2) by (simp add: sellLoop_dust)
  next
    case 4
    have "okLot (l\<lparr>lot.quantity := lot.quantity l - q\<rparr>)"
      using ok(1) 4(2) by (simp add: okLot_def)
    then show ?thesis using 4 ok(2) by (simp add: sellLoop_part)
  qed
qed


subsection \<open>Invariants of the replay\<close>

lemma lots_applyTx:
  "lotsOf (lotsByAsset (applyTx st tx)) a =
     (if asset tx = a then fst (assetStep (view st a) tx) else lotsOf (lotsByAsset st) a)"
  using view_applyTx [of st tx a, THEN arg_cong, of fst] by (simp add: view_def)

lemma applyTx_ok:
  assumes "nonNegTx tx" and "list_all okLot (lotsOf (lotsByAsset st) a)"
  shows "list_all okLot (lotsOf (lotsByAsset (applyTx st tx)) a)"
  using assms
  by (simp add: lots_applyTx assetStep_def view_def sellLoop_ok okLot_def nonNegTx_def)

lemma foldl_applyTx_ok:
  "list_all nonNegTx txs \<Longrightarrow> list_all okLot (lotsOf (lotsByAsset st) a) \<Longrightarrow>
   list_all okLot (lotsOf (lotsByAsset (foldl applyTx st txs)) a)"
  by (induction txs arbitrary: st) (simp_all add: applyTx_ok)




lemma nonNegative_sortByDate: "nonNegative txs \<Longrightarrow> list_all nonNegTx (sortByDate txs)"
  by (simp add: nonNegative_def list_all_iff)

lemma lotsOf_empty [simp]: "lotsOf (lotsByAsset emptyLedger) a = []"
  by (simp add: emptyLedger_def lotsOf_def)

lemma replay_ok: "nonNegative txs \<Longrightarrow> list_all okLot (lotsOf (lotsByAsset (replay txs)) a)"
  unfolding replay_def by (rule foldl_applyTx_ok [OF nonNegative_sortByDate]) simp_all


lemma summary_invested:
  "summary.invested (summarise st prices a) =
     (\<Sum>l\<leftarrow>lotsOf (lotsByAsset st) a. lot.quantity l * lot.price l)"
  by (simp add: summarise_def Let_def foldl_plus_sum_list)

subsection \<open>Totals, months and the history loop\<close>

lemma roundHalfEven_of_int [simp]: "roundHalfEven (of_int m) = m"
  by (simp add: roundHalfEven_def)

lemma roundDouble_whole:
  assumes w: "whole x" and b: "\<bar>x\<bar> < 9007199254740992"
  shows "roundDouble x = x"
proof (cases "x = 0")
  case True
  then show ?thesis by (simp add: roundDouble_def)
next
  case False
  define n where "n = \<lfloor>x\<rfloor>"
  have x: "x = of_int n" unfolding n_def using w [unfolded whole_def] by (rule sym)
  with False have n0: "n \<noteq> 0" by auto
  then have a1: "1 \<le> \<bar>x\<bar>" unfolding x by (simp flip: of_int_abs)
  have fl: "\<lfloor>\<bar>x\<bar>\<rfloor> = \<bar>n\<bar>" unfolding x by (simp flip: of_int_abs)
  have "\<bar>n\<bar> < 2 ^ nat 53" using b unfolding x by (simp flip: of_int_abs)
  then have "bitlen \<bar>n\<bar> \<le> 53" by (simp add: bitlen_le_iff_power)
  then have e: "exponent x \<le> 52" using a1 by (simp add: exponent_def fl)
  define k where "k = nat (52 - exponent x)"
  have u: "2 powi (exponent x - 52) = 1 / (2::real) ^ k"
  proof -
    have "exponent x - 52 = - int k" using e by (simp add: k_def)
    then have "2 powi (exponent x - 52) = (2::real) powi (- int k)" by (rule arg_cong)
    also have "\<dots> = inverse (2 ^ k)" by (simp only: power_int_minus power_int_of_nat)
    finally show ?thesis by (simp add: inverse_eq_divide)
  qed
  have "x / (1 / 2 ^ k) = of_int (n * 2 ^ k)" by (simp add: x)
  then have r: "roundHalfEven (x / (1 / 2 ^ k)) = n * 2 ^ k"
    by (simp only: roundHalfEven_of_int)
  have "roundDouble x = of_int (roundHalfEven (x / (1 / 2 ^ k))) * (1 / 2 ^ k)"
    using False by (simp only: roundDouble_def u Let_def if_False)
  also have "\<dots> = of_int (n * 2 ^ k) * (1 / 2 ^ k)" by (simp only: r)
  also have "\<dots> = x" by (simp add: x)
  finally show ?thesis .
qed

lemma whole_add: "whole x \<Longrightarrow> whole y \<Longrightarrow> whole (x + y)"
  by (metis whole_def of_int_add floor_of_int)

lemma whole_0 [simp]: "whole 0"
  by (simp add: whole_def)

lemma doubleAdd_whole:
  "whole x \<Longrightarrow> whole y \<Longrightarrow> \<bar>x\<bar> + \<bar>y\<bar> < 9007199254740992 \<Longrightarrow> doubleAdd x y = x + y"
  unfolding doubleAdd_def by (rule roundDouble_whole) (auto intro: whole_add)

lemma foldl_doubleAdd_whole:
  "whole z \<Longrightarrow> list_all whole xs \<Longrightarrow> \<bar>z\<bar> + sum_list (map abs xs) < 9007199254740992 \<Longrightarrow>
   foldl doubleAdd z xs = z + sum_list xs"
proof (induction xs arbitrary: z)
  case Nil
  show ?case by simp
next
  case (Cons x xs)
  have nn: "0 \<le> sum_list (map abs xs)" by (rule sum_list_nonneg) auto
  have a: "doubleAdd z x = z + x"
    using Cons.prems nn by (intro doubleAdd_whole) simp_all
  have "foldl doubleAdd (z + x) xs = z + x + sum_list xs"
    using Cons.prems by (intro Cons.IH) (auto intro: whole_add)
  then show ?case by (simp add: a)
qed

lemma doubleAdd_eval:
  "of_int \<lfloor>x + y\<rfloor> = x + y \<Longrightarrow> \<bar>x + y\<bar> < 9007199254740992 \<Longrightarrow> doubleAdd x y = x + y"
  unfolding doubleAdd_def by (rule roundDouble_whole) (simp_all add: whole_def)

lemma computeTotals_columns:
  "computeTotals summ =
     \<lparr>totals.invested = foldl doubleAdd 0 (map (\<lambda>(a, s). summary.invested s) summ),
      totals.value = foldl doubleAdd 0 (map (\<lambda>(a, s). summary.value s) summ),
      totals.realised = foldl doubleAdd 0 (map (\<lambda>(a, s). summary.realised s) summ),
      totals.unrealised = foldl doubleAdd 0 (map (\<lambda>(a, s). summary.unrealised s) summ),
      totals.pnl = foldl doubleAdd 0 (map (\<lambda>(a, s). summary.pnl s) summ)\<rparr>"
proof -
  have "foldl (\<lambda>t (a, s).
              \<lparr>totals.invested = doubleAdd (totals.invested t) (summary.invested s),
               totals.value = doubleAdd (totals.value t) (summary.value s),
               totals.realised = doubleAdd (totals.realised t) (summary.realised s),
               totals.unrealised = doubleAdd (totals.unrealised t) (summary.unrealised s),
               totals.pnl = doubleAdd (totals.pnl t) (summary.pnl s)\<rparr>) t0 summ =
     \<lparr>totals.invested =
        foldl doubleAdd (totals.invested t0) (map (\<lambda>(a, s). summary.invested s) summ),
      totals.value = foldl doubleAdd (totals.value t0) (map (\<lambda>(a, s). summary.value s) summ),
      totals.realised =
        foldl doubleAdd (totals.realised t0) (map (\<lambda>(a, s). summary.realised s) summ),
      totals.unrealised =
        foldl doubleAdd (totals.unrealised t0) (map (\<lambda>(a, s). summary.unrealised s) summ),
      totals.pnl = foldl doubleAdd (totals.pnl t0) (map (\<lambda>(a, s). summary.pnl s) summ)\<rparr>"
    for t0
    by (induction summ arbitrary: t0) (simp_all add: case_prod_beta)
  then show ?thesis by (simp add: computeTotals_def)
qed

lemma wholeColumn_exact: "wholeColumn xs \<Longrightarrow> foldl doubleAdd 0 xs = sum_list xs"
  using foldl_doubleAdd_whole [of 0 xs] by (simp add: wholeColumn_def)

lemma sum_list_mset_cong:
  fixes f :: "'a \<Rightarrow> real"
  assumes "mset xs = mset ys"
  shows "sum_list (map f xs) = sum_list (map f ys)"
proof -
  have "sum_mset (image_mset f (mset xs)) = sum_mset (image_mset f (mset ys))"
    using assms by simp
  then show ?thesis by (simp only: flip: mset_map sum_mset_sum_list)
qed

lemma exactTotals_mset: "mset ys = mset summ \<Longrightarrow> exactTotals ys = exactTotals summ"
  unfolding exactTotals_def by (simp add: sum_list_mset_cong [of ys summ])

lemma wholeColumn_mset:
  assumes "mset xs = mset ys"
  shows "wholeColumn xs = wholeColumn ys"
proof -
  have "set xs = set ys" using assms by (rule mset_eq_setD)
  moreover have "sum_list (map abs xs) = sum_list (map abs ys)"
    using assms by (rule sum_list_mset_cong)
  ultimately show ?thesis by (simp add: wholeColumn_def list_all_iff)
qed

lemma wholeAmounts_mset: "mset ys = mset summ \<Longrightarrow> wholeAmounts ys = wholeAmounts summ"
  unfolding wholeAmounts_def
  by (simp add: wholeColumn_mset [of "map f ys" "map f summ" for f])

lemma wholeAmounts_exact: "wholeAmounts summ \<Longrightarrow> computeTotals summ = exactTotals summ"
  unfolding computeTotals_columns exactTotals_def wholeAmounts_def
  by (simp add: wholeColumn_exact)

lemma historyLoop_length [simp]: "length (historyLoop txs prices pv0 pinv0 ms) = length ms"
  by (induction ms arbitrary: pv0 pinv0) (simp_all add: Let_def)

lemma historyLoop_fields:
  "i < length ms \<Longrightarrow>
   entry.month (historyLoop txs prices pv0 pinv0 ms ! i) = ms ! i \<and>
   entry.invested (historyLoop txs prices pv0 pinv0 ms ! i) = totals.invested (totalsUpto txs prices (ms ! i)) \<and>
   entry.value (historyLoop txs prices pv0 pinv0 ms ! i) = totals.value (totalsUpto txs prices (ms ! i)) \<and>
   entry.realised (historyLoop txs prices pv0 pinv0 ms ! i) = totals.realised (totalsUpto txs prices (ms ! i)) \<and>
   entry.unrealised (historyLoop txs prices pv0 pinv0 ms ! i) = totals.unrealised (totalsUpto txs prices (ms ! i)) \<and>
   entry.pnl (historyLoop txs prices pv0 pinv0 ms ! i) = totals.pnl (totalsUpto txs prices (ms ! i))"
proof (induction ms arbitrary: pv0 pinv0 i)
  case Nil
  then show ?case by simp
next
  case (Cons m ms)
  show ?case
  proof (cases i)
    case 0
    then show ?thesis by (simp add: Let_def totalsUpto_def)
  next
    case (Suc j)
    with Cons.prems have "j < length ms" by simp
    from Cons.IH [OF this] Suc show ?thesis by (simp add: Let_def)
  qed
qed

lemma historyLoop_return:
  "i < length ms \<Longrightarrow>
   entry.return (historyLoop txs prices pv0 pinv0 ms ! i) =
     (let t = totalsUpto txs prices (ms ! i);
          ppv = (if i = 0 then pv0
                 else totals.value (totalsUpto txs prices (ms ! (i - 1))) +
                      totals.realised (totalsUpto txs prices (ms ! (i - 1))));
          pinv = (if i = 0 then pinv0 else totals.invested (totalsUpto txs prices (ms ! (i - 1))))
      in (if ppv > 0
          then (totals.value t + totals.realised t - ppv - (totals.invested t - pinv)) / ppv
          else 0) * 100)"
proof (induction ms arbitrary: pv0 pinv0 i)
  case Nil
  then show ?case by simp
next
  case (Cons m ms)
  show ?case
  proof (cases i)
    case 0
    then show ?thesis by (simp add: Let_def totalsUpto_def)
  next
    case (Suc j)
    with Cons.prems have j: "j < length ms" by simp
    show ?thesis
    proof (cases j)
      case 0
      with Cons.IH [OF j] Suc show ?thesis by (simp add: Let_def totalsUpto_def)
    next
      case (Suc k)
      with Cons.IH [OF j] \<open>i = Suc j\<close> show ?thesis by (simp add: Let_def)
    qed
  qed
qed

lemma months_props:
  "sorted (months txs) \<and> distinct (months txs) \<and> set (months txs) = monthKey ` set txs"
  by (simp add: months_def)

lemma map_month_history: "map entry.month (computeMonthlyHistory txs prices) = months txs"
  by (rule nth_equalityI) (simp_all add: computeMonthlyHistory_def historyLoop_fields)

lemma sorted_le_last:
  fixes xs :: "'a::linorder list"
  shows "sorted xs \<Longrightarrow> x \<in> set xs \<Longrightarrow> x \<le> last xs"
  by (induction xs) auto

lemma uptoMonth_last: "txs \<noteq> [] \<Longrightarrow> uptoMonth txs (last (months txs)) = txs"
proof -
  assume "txs \<noteq> []"
  have "monthKey tx \<le> last (months txs)" if "tx \<in> set txs" for tx
  proof -
    from that have "monthKey tx \<in> set (months txs)" by (simp add: months_def)
    with months_props [of txs] show ?thesis by (simp add: sorted_le_last)
  qed
  then show ?thesis by (simp add: uptoMonth_def)
qed

lemma sortByDate_unique:
  assumes "mset ys = mset txs"
    and "\<And>k. filter (\<lambda>tx. dateValue (date tx) = k) ys = filter (\<lambda>tx. dateValue (date tx) = k) txs"
  shows "sortByDate ys = sortByDate txs"
  unfolding sortByDate_def
proof (rule properties_for_sort_key)
  show "mset (sort_key (\<lambda>tx. dateValue (date tx)) txs) = mset ys"
    using assms(1) by simp
  show "sorted (map (\<lambda>tx. dateValue (date tx)) (sort_key (\<lambda>tx. dateValue (date tx)) txs))"
    by simp
  fix k assume "k \<in> set (sort_key (\<lambda>tx. dateValue (date tx)) txs)"
  have "filter (\<lambda>x. dateValue (date x) = dateValue (date k)) (sort_key (\<lambda>tx. dateValue (date tx)) txs)
      = filter (\<lambda>x. dateValue (date x) = dateValue (date k)) ys"
    by (simp add: sort_key_stable assms(2))
  then show "filter (\<lambda>x. dateValue (date k) = dateValue (date x)) (sort_key (\<lambda>tx. dateValue (date tx)) txs)
      = filter (\<lambda>x. dateValue (date k) = dateValue (date x)) ys"
    by (simp add: eq_commute)
qed

lemma historyLoop_step:
  "historyLoop txs prices pv0 pinv0 (m # ms) =
     \<lparr>entry.month = m,
      entry.invested = totals.invested (totalsUpto txs prices m),
      entry.value = totals.value (totalsUpto txs prices m),
      entry.realised = totals.realised (totalsUpto txs prices m),
      entry.unrealised = totals.unrealised (totalsUpto txs prices m),
      entry.pnl = totals.pnl (totalsUpto txs prices m),
      entry.return =
        (if pv0 > 0
         then (totals.value (totalsUpto txs prices m) + totals.realised (totalsUpto txs prices m)
               - pv0 - (totals.invested (totalsUpto txs prices m) - pinv0)) / pv0
         else 0) * 100\<rparr>
     # historyLoop txs prices
         (totals.value (totalsUpto txs prices m) + totals.realised (totalsUpto txs prices m))
         (totals.invested (totalsUpto txs prices m)) ms"
  by (simp add: totalsUpto_def Let_def)

subsection \<open>Unfolding the model on concrete transactions\<close>

lemmas date_eval = dateValue_def number_def digitVal_def daysFromCivil_def

lemmas replay_eval =
  replay_def sortByDate_def applyTx_def emptyLedger_def lotsOf_def realisedOf_def Let_def
  sellLoop.simps date_eval

lemmas summary_eval = computePnL_def summarise_def replay_eval

section \<open>The claims\<close>

text \<open>
  C1. The realised PnL that \<^verbatim>\<open>computePnL\<close> reports for an asset is the sum, over
  the SELL events of that asset, of consumed quantity times (sell price minus lot
  acquisition price) over the lot portions the sale consumes oldest lot first:
  \<open>realisedSpec\<close> builds its own queue, in which a BUY goes behind all earlier lots and
  a sale consumes from the front. The lots still open after the replay are the lots
  bought last, in the order they were bought. For a single BUY of a quantity \<open>q\<close> at price
  \<open>p1\<close> followed by a SELL of the same quantity at price \<open>p2\<close> of the same asset, the
  summary holds that asset alone, with realised \<open>q * (p2 - p1)\<close>; and when two lots of
  \<open>q\<close> were bought at \<open>p1\<close> and then at \<open>p2\<close>, a SELL of \<open>q\<close> at \<open>p3\<close> realises
  \<open>q * (p3 - p1)\<close> and leaves the second lot, invested \<open>q * p2\<close>. Quantities are amounts,
  so \<open>q\<close> is not negative.
\<close>

theorem realised_is_fifo_sum:
  "(map_of (computePnL txs prices) a = Some s \<longrightarrow>
      summary.realised s = realisedSpec txs a) \<and>
   suffix (map lot.price (lotsOf (lotsByAsset (replay txs)) a))
     (map transaction.price
        (filter (\<lambda>tx. asset tx = a \<and> type tx = ''BUY'') (sortByDate txs))) \<and>
   (0 \<le> q \<and> dateValue d1 \<le> dateValue d2 \<longrightarrow>
      map (\<lambda>(k, s). (k, summary.realised s))
        (computePnL
          [\<lparr>date = d1, platform = pf1, asset = b, type = ''BUY'', price = p1, quantity = q\<rparr>,
           \<lparr>date = d2, platform = pf2, asset = b, type = ''SELL'', price = p2, quantity = q\<rparr>]
          prices) = [(b, q * (p2 - p1))]) \<and>
   (0 < q \<and> dateValue d1 \<le> dateValue d2 \<and> dateValue d2 \<le> dateValue d3 \<longrightarrow>
      map (\<lambda>(k, s). (k, summary.realised s, summary.invested s))
        (computePnL
          [\<lparr>date = d1, platform = pf1, asset = b, type = ''BUY'', price = p1, quantity = q\<rparr>,
           \<lparr>date = d2, platform = pf2, asset = b, type = ''BUY'', price = p2, quantity = q\<rparr>,
           \<lparr>date = d3, platform = pf3, asset = b, type = ''SELL'', price = p3, quantity = q\<rparr>]
          prices) = [(b, q * (p3 - p1), q * p2)])"
proof (intro conjI impI)
  assume "map_of (computePnL txs prices) a = Some s"
  then have "s = summarise (replay txs) prices a" by (rule computePnL_lookup)
  then show "summary.realised s = realisedSpec txs a"
    by (simp add: summarise_def Let_def replay_def realised_foldl realisedSpec_def
          sortByDate_def)
next
  show "suffix (map lot.price (lotsOf (lotsByAsset (replay txs)) a))
     (map transaction.price
        (filter (\<lambda>tx. asset tx = a \<and> type tx = ''BUY'') (sortByDate txs)))"
    by (rule open_lots_are_newest)
next
  assume h: "0 \<le> q \<and> dateValue d1 \<le> dateValue d2"
  have s: "snd (sellLoop p2 q [\<lparr>lot.quantity = q, lot.price = p1\<rparr>] 0) = q * (p2 - p1)"
    using h by (simp add: sellLoop_full_sale)
  show "map (\<lambda>(k, s). (k, summary.realised s))
        (computePnL
          [\<lparr>date = d1, platform = pf1, asset = b, type = ''BUY'', price = p1, quantity = q\<rparr>,
           \<lparr>date = d2, platform = pf2, asset = b, type = ''SELL'', price = p2, quantity = q\<rparr>]
          prices) = [(b, q * (p2 - p1))]"
    using h by (simp add: computePnL_def replay_buy_sell s summarise_def realisedOf_def Let_def)
next
  assume h: "0 < q \<and> dateValue d1 \<le> dateValue d2 \<and> dateValue d2 \<le> dateValue d3"
  show "map (\<lambda>(k, s). (k, summary.realised s, summary.invested s))
        (computePnL
          [\<lparr>date = d1, platform = pf1, asset = b, type = ''BUY'', price = p1, quantity = q\<rparr>,
           \<lparr>date = d2, platform = pf2, asset = b, type = ''BUY'', price = p2, quantity = q\<rparr>,
           \<lparr>date = d3, platform = pf3, asset = b, type = ''SELL'', price = p3, quantity = q\<rparr>]
          prices) = [(b, q * (p3 - p1), q * p2)]"
    using h
    by (simp add: computePnL_def replay_buy_buy_sell summarise_def realisedOf_def lotsOf_def
          Let_def)
qed

theorem realised_is_fifo_sum_witness:
  "map_of (computePnL
      [buy ''2024-01-01'' ''BTC'' 1 100, buy ''2024-01-02'' ''BTC'' 1 200,
       sell ''2024-01-03'' ''BTC'' 1 300] [''BTC'' \<mapsto> 300]) ''BTC'' =
     Some \<lparr>summary.quantity = 1, invested = 200, currentPrice = 300, value = 300,
           realised = 200, unrealised = 100, pnl = 300, costAvg = 200,
           pnlPercent = Some 150\<rparr> \<and>
   realisedSpec
      [buy ''2024-01-01'' ''BTC'' 1 100, buy ''2024-01-02'' ''BTC'' 1 200,
       sell ''2024-01-03'' ''BTC'' 1 300] ''BTC'' = 200 \<and>
   ((0::real) \<le> 3 \<and> dateValue ''2024-01-01'' \<le> dateValue ''2024-02-01'') \<and>
   map (\<lambda>(k, s). (k, summary.realised s))
     (computePnL [buy ''2024-01-01'' ''ETH'' 3 100, sell ''2024-02-01'' ''ETH'' 3 150] Map.empty) =
     [(''ETH'', 150)] \<and>
   ((0::real) < 2 \<and> dateValue ''2024-01-01'' \<le> dateValue ''2024-01-01'' \<and>
    dateValue ''2024-01-01'' \<le> dateValue ''2024-03-01'') \<and>
   map (\<lambda>(k, s). (k, summary.realised s, summary.invested s))
     (computePnL [buy ''2024-01-01'' ''SOL'' 2 10, buy ''2024-01-01'' ''SOL'' 2 40,
                  sell ''2024-03-01'' ''SOL'' 2 50] Map.empty) =
     [(''SOL'', 80, 80)]"
proof -
  have h1: "map_of (computePnL
      [buy ''2024-01-01'' ''BTC'' 1 100, buy ''2024-01-02'' ''BTC'' 1 200,
       sell ''2024-01-03'' ''BTC'' 1 300] [''BTC'' \<mapsto> 300]) ''BTC'' =
     Some \<lparr>summary.quantity = 1, invested = 200, currentPrice = 300, value = 300,
           realised = 200, unrealised = 100, pnl = 300, costAvg = 200,
           pnlPercent = Some 150\<rparr>"
    by (simp add: summary_eval)
  have h2: "(0::real) \<le> 3 \<and> dateValue ''2024-01-01'' \<le> dateValue ''2024-02-01''"
    by (simp add: date_eval Let_def)
  have h3: "(0::real) < 2 \<and> dateValue ''2024-01-01'' \<le> dateValue ''2024-01-01'' \<and>
    dateValue ''2024-01-01'' \<le> dateValue ''2024-03-01''"
    by (simp add: date_eval Let_def)
  note t1 = realised_is_fifo_sum [where
      txs = "[buy ''2024-01-01'' ''BTC'' 1 100, buy ''2024-01-02'' ''BTC'' 1 200,
              sell ''2024-01-03'' ''BTC'' 1 300]"
      and prices = "[''BTC'' \<mapsto> 300]" and a = "''BTC''", THEN conjunct1, rule_format, OF h1]
  note t2 = realised_is_fifo_sum [where q = 3 and ?d1.0 = "''2024-01-01''"
      and ?d2.0 = "''2024-02-01''" and ?pf1.0 = "''Bitget''" and ?pf2.0 = "''Bitget''"
      and b = "''ETH''" and ?p1.0 = 100 and ?p2.0 = 150 and prices = Map.empty,
      THEN conjunct2, THEN conjunct2, THEN conjunct1, rule_format, OF h2]
  note t3 = realised_is_fifo_sum [where q = 2 and ?d1.0 = "''2024-01-01''"
      and ?d2.0 = "''2024-01-01''" and ?d3.0 = "''2024-03-01''" and ?pf1.0 = "''Bitget''"
      and ?pf2.0 = "''Bitget''" and ?pf3.0 = "''Bitget''"
      and b = "''SOL''" and ?p1.0 = 10 and ?p2.0 = 40 and ?p3.0 = 50 and prices = Map.empty,
      THEN conjunct2, THEN conjunct2, THEN conjunct2, rule_format, OF h3]
  from t1 t2 t3 h1 h2 h3
  show ?thesis by simp
qed




text \<open>
  C3. A SELL whose quantity exceeds the quantity in the asset's queue empties the
  queue, realises the gain on exactly the lots that were there and drops the excess; the
  loop returns, and nothing is raised. For a BUY of 1 at 100 and a later SELL of 2 at 100 of
  BTC the summary of BTC has realised 0, quantity 0 and invested 0.
\<close>

theorem oversell_discarded:
  "(list_all (\<lambda>l. 0 \<le> lot.quantity l) lots \<and> sum_list (map lot.quantity lots) < q \<longrightarrow>
      sellLoop p q lots acc = ([], acc + (\<Sum>l\<leftarrow>lots. lot.quantity l * (p - lot.price l)))) \<and>
   (dateValue d1 \<le> dateValue d2 \<longrightarrow>
      map (\<lambda>(k, s). (k, summary.realised s, summary.quantity s, summary.invested s))
        (computePnL
          [\<lparr>date = d1, platform = pf1, asset = ''BTC'', type = ''BUY'', price = 100, quantity = 1\<rparr>,
           \<lparr>date = d2, platform = pf2, asset = ''BTC'', type = ''SELL'', price = 100, quantity = 2\<rparr>]
          prices) = [(''BTC'', 0, 0, 0)])"
proof (intro conjI impI)
  assume "list_all (\<lambda>l. 0 \<le> lot.quantity l) lots \<and> sum_list (map lot.quantity lots) < q"
  then show "sellLoop p q lots acc = ([], acc + (\<Sum>l\<leftarrow>lots. lot.quantity l * (p - lot.price l)))"
    by (simp add: sellLoop_oversell list_all_iff)
next
  assume d: "dateValue d1 \<le> dateValue d2"
  have s: "sellLoop 100 2 [\<lparr>lot.quantity = 1, lot.price = 100\<rparr>] 0 = ([], 0)"
    using sellLoop_oversell [of "[\<lparr>lot.quantity = 1, lot.price = 100\<rparr>]" 2 100 0] by simp
  show "map (\<lambda>(k, s). (k, summary.realised s, summary.quantity s, summary.invested s))
        (computePnL
          [\<lparr>date = d1, platform = pf1, asset = ''BTC'', type = ''BUY'', price = 100, quantity = 1\<rparr>,
           \<lparr>date = d2, platform = pf2, asset = ''BTC'', type = ''SELL'', price = 100, quantity = 2\<rparr>]
          prices) = [(''BTC'', 0, 0, 0)]"
    by (simp add: computePnL_def replay_buy_sell [OF d] s summarise_def lotsOf_def realisedOf_def Let_def)
qed

theorem oversell_discarded_witness:
  "(list_all (\<lambda>l. 0 \<le> lot.quantity l) [\<lparr>lot.quantity = 1, lot.price = 100\<rparr>] \<and>
    sum_list (map lot.quantity [\<lparr>lot.quantity = 1, lot.price = 100\<rparr>]) < 2) \<and>
   sellLoop 100 2 [\<lparr>lot.quantity = 1, lot.price = 100\<rparr>] 0 = ([], 0) \<and>
   dateValue ''2024-01-01'' \<le> dateValue ''2024-01-02'' \<and>
   map (\<lambda>(k, s). (k, summary.realised s, summary.quantity s, summary.invested s))
     (computePnL [buy ''2024-01-01'' ''BTC'' 1 100, sell ''2024-01-02'' ''BTC'' 2 100] Map.empty) =
     [(''BTC'', 0, 0, 0)]"
proof -
  have h1: "list_all (\<lambda>l. 0 \<le> lot.quantity l) [\<lparr>lot.quantity = 1, lot.price = 100\<rparr>] \<and>
    sum_list (map lot.quantity [\<lparr>lot.quantity = 1, lot.price = 100\<rparr>]) < 2" by simp
  have h2: "dateValue ''2024-01-01'' \<le> dateValue ''2024-01-02''"
    by (simp add: date_eval Let_def)
  note t = oversell_discarded [where lots = "[\<lparr>lot.quantity = 1, lot.price = 100\<rparr>]"
      and q = 2 and p = 100 and acc = 0 and ?d1.0 = "''2024-01-01''" and ?d2.0 = "''2024-01-02''"
      and ?pf1.0 = "''Bitget''" and ?pf2.0 = "''Bitget''" and prices = Map.empty]
  from t [THEN conjunct1, rule_format, OF h1] t [THEN conjunct2, rule_format, OF h2] h1 h2
  show ?thesis by simp
qed

text \<open>
  C4. The replay runs over the transactions in ascending order of their date values,
  whatever the order of the input, the transactions of one date in their input order: the
  ledger is the fold of the replay step over any list that is sorted by date, is a
  rearrangement of the input and keeps the input order within each date, and the sorted
  list the code builds is such a list. Hence two inputs with the same transactions and the
  same order among the transactions of each date give the same ledger and the same
  summary. A SELL entered before the BUY of an earlier date is processed after it; a BUY and
  a SELL of one date are processed in the order of the input, so BUY then SELL realises the
  gain and SELL then BUY finds no lot, realises nothing and leaves the lot open.
\<close>

theorem replay_in_stable_date_order:
  "sorted (map (\<lambda>tx. dateValue (date tx)) (sortByDate txs)) \<and>
   mset (sortByDate txs) = mset txs \<and>
   (\<forall>k. filter (\<lambda>tx. dateValue (date tx) = k) (sortByDate txs) =
        filter (\<lambda>tx. dateValue (date tx) = k) txs) \<and>
   (\<forall>ys. sorted (map (\<lambda>tx. dateValue (date tx)) ys) \<and> mset ys = mset txs \<and>
         (\<forall>k. filter (\<lambda>tx. dateValue (date tx) = k) ys =
              filter (\<lambda>tx. dateValue (date tx) = k) txs) \<longrightarrow>
         replay txs = foldl applyTx emptyLedger ys \<and>
         computePnL txs prices =
           map (\<lambda>a. (a, summarise (foldl applyTx emptyLedger ys) prices a))
             (map fst (lotsByAsset (foldl applyTx emptyLedger ys)))) \<and>
   (\<forall>ys. mset ys = mset txs \<and>
         (\<forall>k. filter (\<lambda>tx. dateValue (date tx) = k) ys =
              filter (\<lambda>tx. dateValue (date tx) = k) txs) \<longrightarrow>
         replay ys = replay txs \<and> computePnL ys prices = computePnL txs prices) \<and>
   (0 \<le> q \<and> dateValue d1 < dateValue d2 \<longrightarrow>
      map (\<lambda>(k, s). (k, summary.realised s, summary.quantity s))
        (computePnL
          [\<lparr>date = d2, platform = pf2, asset = b, type = ''SELL'', price = p2, quantity = q\<rparr>,
           \<lparr>date = d1, platform = pf1, asset = b, type = ''BUY'', price = p1, quantity = q\<rparr>] prices) =
      [(b, q * (p2 - p1), 0)]) \<and>
   (0 \<le> q \<longrightarrow>
      map (\<lambda>(k, s). (k, summary.realised s, summary.quantity s))
        (computePnL
          [\<lparr>date = d, platform = pf1, asset = b, type = ''BUY'', price = p1, quantity = q\<rparr>,
           \<lparr>date = d, platform = pf2, asset = b, type = ''SELL'', price = p2, quantity = q\<rparr>] prices) =
      [(b, q * (p2 - p1), 0)] \<and>
      map (\<lambda>(k, s). (k, summary.realised s, summary.quantity s))
        (computePnL
          [\<lparr>date = d, platform = pf2, asset = b, type = ''SELL'', price = p2, quantity = q\<rparr>,
           \<lparr>date = d, platform = pf1, asset = b, type = ''BUY'', price = p1, quantity = q\<rparr>] prices) =
      [(b, 0, q)])"
proof (intro conjI allI impI)
  show "sorted (map (\<lambda>tx. dateValue (date tx)) (sortByDate txs))"
    by (simp add: sortByDate_def)
  show "mset (sortByDate txs) = mset txs" by (simp add: sortByDate_def)
  show "filter (\<lambda>tx. dateValue (date tx) = k) (sortByDate txs) =
        filter (\<lambda>tx. dateValue (date tx) = k) txs" for k
    by (simp add: sortByDate_def sort_key_stable)
next
  fix ys
  assume h: "sorted (map (\<lambda>tx. dateValue (date tx)) ys) \<and> mset ys = mset txs \<and>
         (\<forall>k. filter (\<lambda>tx. dateValue (date tx) = k) ys =
              filter (\<lambda>tx. dateValue (date tx) = k) txs)"
  then have s: "sortByDate txs = ys" by (intro sortByDate_sorted_stable) simp_all
  then show "replay txs = foldl applyTx emptyLedger ys" by (simp add: replay_def)
  then show "computePnL txs prices =
           map (\<lambda>a. (a, summarise (foldl applyTx emptyLedger ys) prices a))
             (map fst (lotsByAsset (foldl applyTx emptyLedger ys)))"
    by (simp add: computePnL_def Let_def)
next
  fix ys
  assume h: "mset ys = mset txs \<and>
         (\<forall>k. filter (\<lambda>tx. dateValue (date tx) = k) ys =
              filter (\<lambda>tx. dateValue (date tx) = k) txs)"
  then have s: "sortByDate ys = sortByDate txs" by (intro sortByDate_unique) simp_all
  then show "replay ys = replay txs" by (simp add: replay_def)
  then show "computePnL ys prices = computePnL txs prices" by (simp add: computePnL_def)
next
  assume h: "0 \<le> q \<and> dateValue d1 < dateValue d2"
  then have d: "dateValue d1 \<le> dateValue d2" by simp
  have "sortByDate [\<lparr>date = d2, platform = pf2, asset = b, type = ''SELL'', price = p2, quantity = q\<rparr>,
           \<lparr>date = d1, platform = pf1, asset = b, type = ''BUY'', price = p1, quantity = q\<rparr>] =
        sortByDate [\<lparr>date = d1, platform = pf1, asset = b, type = ''BUY'', price = p1, quantity = q\<rparr>,
           \<lparr>date = d2, platform = pf2, asset = b, type = ''SELL'', price = p2, quantity = q\<rparr>]"
    using h by (simp add: sortByDate_def)
  then have e: "computePnL [\<lparr>date = d2, platform = pf2, asset = b, type = ''SELL'', price = p2, quantity = q\<rparr>,
           \<lparr>date = d1, platform = pf1, asset = b, type = ''BUY'', price = p1, quantity = q\<rparr>] prices =
        computePnL [\<lparr>date = d1, platform = pf1, asset = b, type = ''BUY'', price = p1, quantity = q\<rparr>,
           \<lparr>date = d2, platform = pf2, asset = b, type = ''SELL'', price = p2, quantity = q\<rparr>] prices"
    by (simp add: computePnL_def replay_def)
  show "map (\<lambda>(k, s). (k, summary.realised s, summary.quantity s))
        (computePnL
          [\<lparr>date = d2, platform = pf2, asset = b, type = ''SELL'', price = p2, quantity = q\<rparr>,
           \<lparr>date = d1, platform = pf1, asset = b, type = ''BUY'', price = p1, quantity = q\<rparr>] prices) =
      [(b, q * (p2 - p1), 0)]"
    unfolding e using h d by (intro computePnL_buy_sell) simp_all
next
  assume h: "0 \<le> q"
  show "map (\<lambda>(k, s). (k, summary.realised s, summary.quantity s))
        (computePnL
          [\<lparr>date = d, platform = pf1, asset = b, type = ''BUY'', price = p1, quantity = q\<rparr>,
           \<lparr>date = d, platform = pf2, asset = b, type = ''SELL'', price = p2, quantity = q\<rparr>] prices) =
      [(b, q * (p2 - p1), 0)]"
    using h by (intro computePnL_buy_sell) simp_all
  show "map (\<lambda>(k, s). (k, summary.realised s, summary.quantity s))
        (computePnL
          [\<lparr>date = d, platform = pf2, asset = b, type = ''SELL'', price = p2, quantity = q\<rparr>,
           \<lparr>date = d, platform = pf1, asset = b, type = ''BUY'', price = p1, quantity = q\<rparr>] prices) =
      [(b, 0, q)]"
    by (simp add: computePnL_def replay_sell_buy lotsOf_def summarise_def realisedOf_def
          Let_def)
qed

theorem replay_in_stable_date_order_witness:
  "(sorted (map (\<lambda>tx. dateValue (date tx))
      [buy ''2024-01-01'' ''BTC'' 1 100, buy ''2024-01-01'' ''ETH'' 2 10,
       sell ''2024-01-02'' ''BTC'' 1 150]) \<and>
    mset [buy ''2024-01-01'' ''BTC'' 1 100, buy ''2024-01-01'' ''ETH'' 2 10,
          sell ''2024-01-02'' ''BTC'' 1 150] =
    mset [sell ''2024-01-02'' ''BTC'' 1 150, buy ''2024-01-01'' ''BTC'' 1 100,
          buy ''2024-01-01'' ''ETH'' 2 10] \<and>
    (\<forall>k. filter (\<lambda>tx. dateValue (date tx) = k) [buy ''2024-01-01'' ''BTC'' 1 100, buy ''2024-01-01'' ''ETH'' 2 10,
           sell ''2024-01-02'' ''BTC'' 1 150] =
         filter (\<lambda>tx. dateValue (date tx) = k) [sell ''2024-01-02'' ''BTC'' 1 150, buy ''2024-01-01'' ''BTC'' 1 100,
           buy ''2024-01-01'' ''ETH'' 2 10])) \<and>
   replay [sell ''2024-01-02'' ''BTC'' 1 150, buy ''2024-01-01'' ''BTC'' 1 100,
           buy ''2024-01-01'' ''ETH'' 2 10] =
     \<lparr>lotsByAsset = [(''BTC'', []), (''ETH'', [\<lparr>lot.quantity = 2, lot.price = 10\<rparr>])],
      realisedByAsset = [(''BTC'', 50), (''ETH'', 0)]\<rparr> \<and>
   computePnL [sell ''2024-01-02'' ''BTC'' 1 150, buy ''2024-01-01'' ''BTC'' 1 100,
               buy ''2024-01-01'' ''ETH'' 2 10] Map.empty =
     computePnL [buy ''2024-01-01'' ''BTC'' 1 100, buy ''2024-01-01'' ''ETH'' 2 10,
                 sell ''2024-01-02'' ''BTC'' 1 150] Map.empty \<and>
   ((0::real) \<le> 1 \<and> dateValue ''2024-01-01'' < dateValue ''2024-01-02'') \<and>
   map (\<lambda>(k, s). (k, summary.realised s, summary.quantity s))
     (computePnL [sell ''2024-01-02'' ''BTC'' 1 150, buy ''2024-01-01'' ''BTC'' 1 100]
        Map.empty) = [(''BTC'', 50, 0)] \<and>
   map (\<lambda>(k, s). (k, summary.realised s, summary.quantity s))
     (computePnL [buy ''2024-01-01'' ''BTC'' 1 100, sell ''2024-01-01'' ''BTC'' 1 150]
        Map.empty) = [(''BTC'', 50, 0)] \<and>
   map (\<lambda>(k, s). (k, summary.realised s, summary.quantity s))
     (computePnL [sell ''2024-01-01'' ''BTC'' 1 150, buy ''2024-01-01'' ''BTC'' 1 100]
        Map.empty) = [(''BTC'', 0, 1)]"
proof -
  let ?xs = "[sell ''2024-01-02'' ''BTC'' 1 150, buy ''2024-01-01'' ''BTC'' 1 100,
              buy ''2024-01-01'' ''ETH'' 2 10]"
  let ?ys = "[buy ''2024-01-01'' ''BTC'' 1 100, buy ''2024-01-01'' ''ETH'' 2 10,
              sell ''2024-01-02'' ''BTC'' 1 150]"
  have d: "dateValue ''2024-01-01'' = 1704067200000" "dateValue ''2024-01-02'' = 1704153600000"
    by (simp_all add: date_eval Let_def)
  have h4: "sorted (map (\<lambda>tx. dateValue (date tx)) ?ys) \<and> mset ?ys = mset ?xs \<and>
      (\<forall>k. filter (\<lambda>tx. dateValue (date tx) = k) ?ys = filter (\<lambda>tx. dateValue (date tx) = k) ?xs)"
    by (auto simp: d)
  then have h5: "mset ?ys = mset ?xs \<and>
      (\<forall>k. filter (\<lambda>tx. dateValue (date tx) = k) ?ys = filter (\<lambda>tx. dateValue (date tx) = k) ?xs)"
    by blast
  have h6: "(0::real) \<le> 1 \<and> dateValue ''2024-01-01'' < dateValue ''2024-01-02''"
    by (simp add: d)
  have h7: "(0::real) \<le> 1" by simp
  have r: "foldl applyTx emptyLedger ?ys =
     \<lparr>lotsByAsset = [(''BTC'', []), (''ETH'', [\<lparr>lot.quantity = 2, lot.price = 10\<rparr>])],
      realisedByAsset = [(''BTC'', 50), (''ETH'', 0)]\<rparr>"
    by (simp add: applyTx_def emptyLedger_def lotsOf_def realisedOf_def Let_def sellLoop.simps)
  note t = replay_in_stable_date_order [where txs = ?xs and prices = Map.empty]
  note t4 = t [THEN conjunct2, THEN conjunct2, THEN conjunct2, THEN conjunct1,
      rule_format, OF h4]
  note t5 = t [THEN conjunct2, THEN conjunct2, THEN conjunct2, THEN conjunct2, THEN conjunct1,
      rule_format, OF h5]
  note t6 = replay_in_stable_date_order [where q = 1 and ?d1.0 = "''2024-01-01''"
      and ?d2.0 = "''2024-01-02''" and ?pf1.0 = "''Bitget''" and ?pf2.0 = "''Bitget''"
      and b = "''BTC''" and ?p1.0 = 100 and ?p2.0 = 150 and prices = Map.empty,
      THEN conjunct2, THEN conjunct2, THEN conjunct2, THEN conjunct2, THEN conjunct2,
      THEN conjunct1, rule_format, OF h6]
  note t7 = replay_in_stable_date_order [where q = 1 and d = "''2024-01-01''"
      and ?pf1.0 = "''Bitget''" and ?pf2.0 = "''Bitget''"
      and b = "''BTC''" and ?p1.0 = 100 and ?p2.0 = 150 and prices = Map.empty,
      THEN conjunct2, THEN conjunct2, THEN conjunct2, THEN conjunct2, THEN conjunct2,
      THEN conjunct2, rule_format, OF h7]
  from t4 have "replay ?xs = foldl applyTx emptyLedger ?ys" by blast
  with r have r': "replay ?xs =
     \<lparr>lotsByAsset = [(''BTC'', []), (''ETH'', [\<lparr>lot.quantity = 2, lot.price = 10\<rparr>])],
      realisedByAsset = [(''BTC'', 50), (''ETH'', 0)]\<rparr>"
    by simp
  from t5 have c: "computePnL ?xs Map.empty = computePnL ?ys Map.empty" by simp
  from h4 r' c h6 t6 t7 show ?thesis by simp
qed

text \<open>
  C5, as the code has it. The summary has an entry for an asset exactly when some
  transaction of the list, of whatever type, is of that asset: the dictionaries get their
  entry before the type is looked at. An asset bought and then sold in full still has
  its entry, with quantity 0 and its realised PnL.
\<close>

theorem summary_keys_are_transaction_assets:
  "(a \<in> fst ` set (computePnL txs prices) \<longleftrightarrow> a \<in> asset ` set txs) \<and>
   map (\<lambda>(k, s). (k, summary.quantity s, summary.realised s))
     (computePnL
        [\<lparr>date = ''2024-01-01'', platform = ''Bitget'', asset = ''BTC'', type = ''BUY'',
          price = 100, quantity = 1\<rparr>,
         \<lparr>date = ''2024-02-01'', platform = ''Bitget'', asset = ''BTC'', type = ''SELL'',
          price = 150, quantity = 1\<rparr>] prices) = [(''BTC'', 0, 50)]"
proof
  show "a \<in> fst ` set (computePnL txs prices) \<longleftrightarrow> a \<in> asset ` set txs"
    by (simp only: keys_computePnL)
  have d: "dateValue ''2024-01-01'' \<le> dateValue ''2024-02-01''"
    by (simp add: dateValue_def number_def digitVal_def daysFromCivil_def Let_def)
  show "map (\<lambda>(k, s). (k, summary.quantity s, summary.realised s))
     (computePnL
        [\<lparr>date = ''2024-01-01'', platform = ''Bitget'', asset = ''BTC'', type = ''BUY'',
          price = 100, quantity = 1\<rparr>,
         \<lparr>date = ''2024-02-01'', platform = ''Bitget'', asset = ''BTC'', type = ''SELL'',
          price = 150, quantity = 1\<rparr>] prices) = [(''BTC'', 0, 50)]"
    by (simp add: computePnL_def replay_buy_sell [OF d] summarise_def lotsOf_def realisedOf_def
          Let_def sellLoop.simps)
qed

text \<open>
  A single SELL and no BUY at all: the summary has an entry for the asset.
\<close>

theorem summary_keys_counterexample:
  "map fst (computePnL [sell ''2024-01-01'' ''BTC'' 1 100] Map.empty) = [''BTC''] \<and>
   map type [sell ''2024-01-01'' ''BTC'' 1 100] = [''SELL'']"
  by (simp add: summary_eval)

text \<open>
  C6. With prices and quantities that are not negative, the invested amount of a
  summary is never negative, \<^verbatim>\<open>pnlPercent\<close> is null exactly when invested is 0, and
  otherwise it is \<open>pnl / invested * 100\<close>.
\<close>

theorem pnlPercent_null_iff_zero_invested:
  assumes "nonNegative txs" and "map_of (computePnL txs prices) a = Some s"
  shows "0 \<le> summary.invested s \<and>
         (summary.pnlPercent s = None \<longleftrightarrow> summary.invested s = 0) \<and>
         (summary.invested s \<noteq> 0 \<longrightarrow>
            summary.pnlPercent s = Some (summary.pnl s / summary.invested s * 100))"
proof -
  have s: "s = summarise (replay txs) prices a" using assms(2) by (rule computePnL_lookup)
  have nn: "0 \<le> summary.invested s"
    unfolding s summary_invested using replay_ok [OF assms(1), of a]
    by (intro sum_list_nonneg) (auto simp: list_all_iff okLot_def)
  have p: "summary.pnlPercent s =
      (if summary.invested s > 0 then Some (summary.pnl s / summary.invested s * 100) else None)"
    unfolding s by (simp add: summarise_def Let_def)
  from nn p show ?thesis by auto
qed

theorem pnlPercent_null_iff_zero_invested_witness:
  "nonNegative [buy ''2024-01-01'' ''BTC'' 1 100, sell ''2024-02-01'' ''BTC'' 1 150] \<and>
   map_of (computePnL [buy ''2024-01-01'' ''BTC'' 1 100, sell ''2024-02-01'' ''BTC'' 1 150]
             [''BTC'' \<mapsto> 150]) ''BTC'' =
     Some \<lparr>summary.quantity = 0, invested = 0, currentPrice = 150, value = 0,
           realised = 50, unrealised = 0, pnl = 50, costAvg = 0, pnlPercent = None\<rparr> \<and>
   nonNegative [buy ''2024-01-01'' ''BTC'' 2 100, sell ''2024-01-15'' ''BTC'' 1 200] \<and>
   map_of (computePnL [buy ''2024-01-01'' ''BTC'' 2 100, sell ''2024-01-15'' ''BTC'' 1 200]
             [''BTC'' \<mapsto> 200]) ''BTC'' =
     Some \<lparr>summary.quantity = 1, invested = 100, currentPrice = 200, value = 200,
           realised = 100, unrealised = 100, pnl = 200, costAvg = 100,
           pnlPercent = Some (200 / 100 * 100)\<rparr>"
proof -
  let ?s1 = "\<lparr>summary.quantity = 0, invested = 0, currentPrice = 150, value = 0,
           realised = 50, unrealised = 0, pnl = 50, costAvg = 0, pnlPercent = None\<rparr>"
  let ?s2 = "\<lparr>summary.quantity = 1, invested = 100, currentPrice = 200, value = 200,
           realised = 100, unrealised = 100, pnl = 200, costAvg = 100,
           pnlPercent = Some (200 / 100 * 100)\<rparr>"
  have n1: "nonNegative [buy ''2024-01-01'' ''BTC'' 1 100, sell ''2024-02-01'' ''BTC'' 1 150]"
    and n2: "nonNegative [buy ''2024-01-01'' ''BTC'' 2 100, sell ''2024-01-15'' ''BTC'' 1 200]"
    by (simp_all add: nonNegative_def nonNegTx_def)
  have h1: "map_of (computePnL [buy ''2024-01-01'' ''BTC'' 1 100, sell ''2024-02-01'' ''BTC'' 1 150]
             [''BTC'' \<mapsto> 150]) ''BTC'' = Some ?s1"
    by (simp add: summary_eval)
  have h2: "map_of (computePnL [buy ''2024-01-01'' ''BTC'' 2 100, sell ''2024-01-15'' ''BTC'' 1 200]
             [''BTC'' \<mapsto> 200]) ''BTC'' = Some ?s2"
    by (simp add: summary_eval)
  have "summary.pnlPercent ?s1 = None \<longleftrightarrow> summary.invested ?s1 = 0"
    using pnlPercent_null_iff_zero_invested [OF n1 h1] by blast
  moreover have "summary.pnlPercent ?s2 = Some (summary.pnl ?s2 / summary.invested ?s2 * 100)"
    using pnlPercent_null_iff_zero_invested [OF n2 h2] by simp
  ultimately show ?thesis using n1 n2 h1 h2 by simp
qed

text \<open>
  C7. For an asset of the summary that the price map has no entry for, the current
  price and the value are 0 and unrealised is minus the invested amount.
\<close>

theorem missing_price_is_zero:
  assumes "map_of (computePnL txs prices) a = Some s" and "prices a = None"
  shows "summary.currentPrice s = 0 \<and> summary.value s = 0 \<and>
         summary.unrealised s = - summary.invested s"
  using computePnL_lookup [OF assms(1)] assms(2) by (simp add: summarise_def Let_def)

theorem missing_price_is_zero_witness:
  "map_of (computePnL [buy ''2024-01-01'' ''BTC'' 1 100] Map.empty) ''BTC'' =
     Some \<lparr>summary.quantity = 1, invested = 100, currentPrice = 0, value = 0,
           realised = 0, unrealised = - 100, pnl = - 100, costAvg = 100,
           pnlPercent = Some (- 100)\<rparr> \<and>
   (Map.empty :: prices) ''BTC'' = None \<and>
   summary.currentPrice
     \<lparr>summary.quantity = 1, invested = 100, currentPrice = 0, value = 0,
      realised = 0, unrealised = - 100, pnl = - 100, costAvg = 100,
      pnlPercent = Some (- 100)\<rparr> = 0 \<and>
   summary.unrealised
     \<lparr>summary.quantity = 1, invested = 100, currentPrice = 0, value = 0,
      realised = 0, unrealised = - 100, pnl = - 100, costAvg = 100,
      pnlPercent = Some (- 100)\<rparr> = - 100"
proof -
  let ?s = "\<lparr>summary.quantity = 1, invested = 100, currentPrice = 0, value = 0,
           realised = 0, unrealised = - 100, pnl = - 100, costAvg = 100,
           pnlPercent = Some (- 100)\<rparr>"
  have h1: "map_of (computePnL [buy ''2024-01-01'' ''BTC'' 1 100] Map.empty) ''BTC'' = Some ?s"
    by (simp add: summary_eval)
  have h2: "(Map.empty :: prices) ''BTC'' = None" by simp
  have "summary.currentPrice ?s = 0 \<and> summary.value ?s = 0 \<and>
        summary.unrealised ?s = - summary.invested ?s"
    by (rule missing_price_is_zero [OF h1 h2])
  with h1 h2 show ?thesis by simp
qed

text \<open>
  C8. The monthly history has one entry for each distinct month key of the
  transactions, in strictly ascending order. Each entry carries the totals of the
  transactions up to its month; its return is 0 for the first entry, and for a later entry
  it is \<open>((value + realised) - previousPortfolioValue - (invested - previousInvested)) /
  previousPortfolioValue * 100\<close> when the previous portfolio value is positive and 0
  otherwise. The empty list has the empty history.
\<close>

theorem monthly_history_return:
  "sorted (map entry.month (computeMonthlyHistory txs prices)) \<and>
   distinct (map entry.month (computeMonthlyHistory txs prices)) \<and>
   set (map entry.month (computeMonthlyHistory txs prices)) = monthKey ` set txs \<and>
   (i < length (computeMonthlyHistory txs prices) \<longrightarrow>
      (let e = computeMonthlyHistory txs prices ! i;
           t = totalsUpto txs prices (entry.month e)
       in entry.invested e = totals.invested t \<and> entry.value e = totals.value t \<and>
          entry.realised e = totals.realised t \<and>
          entry.return e =
            (if i = 0 then 0
             else (let p = totalsUpto txs prices
                             (entry.month (computeMonthlyHistory txs prices ! (i - 1)));
                       previousPortfolioValue = totals.value p + totals.realised p
                   in if previousPortfolioValue > 0
                      then ((totals.value t + totals.realised t) - previousPortfolioValue
                             - (totals.invested t - totals.invested p))
                           / previousPortfolioValue * 100
                      else 0)))) \<and>
   computeMonthlyHistory [] prices = []"
proof (intro conjI impI)
  show "sorted (map entry.month (computeMonthlyHistory txs prices))"
    "distinct (map entry.month (computeMonthlyHistory txs prices))"
    "set (map entry.month (computeMonthlyHistory txs prices)) = monthKey ` set txs"
    unfolding map_month_history using months_props [of txs] by simp_all
  show "computeMonthlyHistory [] prices = []"
    by (simp add: computeMonthlyHistory_def months_def)
next
  assume "i < length (computeMonthlyHistory txs prices)"
  then have i: "i < length (months txs)" by (simp add: computeMonthlyHistory_def)
  then have j: "i - 1 < length (months txs)" by simp
  note f = historyLoop_fields [OF i, of txs prices 0 0, folded computeMonthlyHistory_def]
  note g = historyLoop_fields [OF j, of txs prices 0 0, folded computeMonthlyHistory_def]
  note r = historyLoop_return [OF i, of txs prices 0 0, folded computeMonthlyHistory_def]
  show "let e = computeMonthlyHistory txs prices ! i;
           t = totalsUpto txs prices (entry.month e)
       in entry.invested e = totals.invested t \<and> entry.value e = totals.value t \<and>
          entry.realised e = totals.realised t \<and>
          entry.return e =
            (if i = 0 then 0
             else (let p = totalsUpto txs prices
                             (entry.month (computeMonthlyHistory txs prices ! (i - 1)));
                       previousPortfolioValue = totals.value p + totals.realised p
                   in if previousPortfolioValue > 0
                      then ((totals.value t + totals.realised t) - previousPortfolioValue
                             - (totals.invested t - totals.invested p))
                           / previousPortfolioValue * 100
                      else 0))"
    unfolding Let_def using f g r by (simp add: Let_def)
qed

theorem monthly_history_return_witness:
  "computeMonthlyHistory
     [buy ''2024-01-01'' ''BTC'' 1 100, sell ''2024-02-02'' ''BTC'' 1 150,
      buy ''2024-03-03'' ''ETH'' 1 100] [''BTC'' \<mapsto> 150] =
   [\<lparr>month = ''2024-01'', invested = 100, value = 150, realised = 0, unrealised = 50,
      pnl = 50, return = 0\<rparr>,
    \<lparr>month = ''2024-02'', invested = 0, value = 0, realised = 50, unrealised = 0,
      pnl = 50, return = 0\<rparr>,
    \<lparr>month = ''2024-03'', invested = 100, value = 0, realised = 50, unrealised = - 100,
      pnl = - 50, return = - 200\<rparr>] \<and>
   2 < length (computeMonthlyHistory
     [buy ''2024-01-01'' ''BTC'' 1 100, sell ''2024-02-02'' ''BTC'' 1 150,
      buy ''2024-03-03'' ''ETH'' 1 100] [''BTC'' \<mapsto> 150]) \<and>
   totalsUpto [buy ''2024-01-01'' ''BTC'' 1 100, sell ''2024-02-02'' ''BTC'' 1 150,
      buy ''2024-03-03'' ''ETH'' 1 100] [''BTC'' \<mapsto> 150] ''2024-02'' =
     \<lparr>totals.invested = 0, value = 0, realised = 50, unrealised = 0, pnl = 50\<rparr> \<and>
   totalsUpto [buy ''2024-01-01'' ''BTC'' 1 100, sell ''2024-02-02'' ''BTC'' 1 150,
      buy ''2024-03-03'' ''ETH'' 1 100] [''BTC'' \<mapsto> 150] ''2024-03'' =
     \<lparr>totals.invested = 100, value = 0, realised = 50, unrealised = - 100, pnl = - 50\<rparr> \<and>
   ((0 + 50) - (0 + 50) - (100 - 0)) / (0 + 50) * 100 = (- 200 :: real)"
proof -
  let ?txs = "[buy ''2024-01-01'' ''BTC'' 1 100, sell ''2024-02-02'' ''BTC'' 1 150,
      buy ''2024-03-03'' ''ETH'' 1 100]"
  let ?pr = "[''BTC'' \<mapsto> (150::real)]"
  have m: "months ?txs = [''2024-01'', ''2024-02'', ''2024-03'']"
    by (simp add: months_def monthKey_def)
  have u1: "uptoMonth ?txs ''2024-01'' = [buy ''2024-01-01'' ''BTC'' 1 100]"
    and u2: "uptoMonth ?txs ''2024-02'' =
             [buy ''2024-01-01'' ''BTC'' 1 100, sell ''2024-02-02'' ''BTC'' 1 150]"
    and u3: "uptoMonth ?txs ''2024-03'' = ?txs"
    by (simp_all add: uptoMonth_def monthKey_def)
  have t1: "totalsUpto ?txs ?pr ''2024-01'' =
     \<lparr>totals.invested = 100, value = 150, realised = 0, unrealised = 50, pnl = 50\<rparr>"
    unfolding totalsUpto_def u1 by (simp add: computeTotals_def doubleAdd_eval summary_eval)
  have t2: "totalsUpto ?txs ?pr ''2024-02'' =
     \<lparr>totals.invested = 0, value = 0, realised = 50, unrealised = 0, pnl = 50\<rparr>"
    unfolding totalsUpto_def u2 by (simp add: computeTotals_def doubleAdd_eval summary_eval)
  have t3: "totalsUpto ?txs ?pr ''2024-03'' =
     \<lparr>totals.invested = 100, value = 0, realised = 50, unrealised = - 100, pnl = - 50\<rparr>"
    unfolding totalsUpto_def u3 by (simp add: computeTotals_def doubleAdd_eval summary_eval)
  have h: "computeMonthlyHistory ?txs ?pr =
   [\<lparr>month = ''2024-01'', invested = 100, value = 150, realised = 0, unrealised = 50,
      pnl = 50, return = 0\<rparr>,
    \<lparr>month = ''2024-02'', invested = 0, value = 0, realised = 50, unrealised = 0,
      pnl = 50, return = 0\<rparr>,
    \<lparr>month = ''2024-03'', invested = 100, value = 0, realised = 50, unrealised = - 100,
      pnl = - 50, return = - 200\<rparr>]"
    unfolding computeMonthlyHistory_def m historyLoop_step t1 t2 t3 by simp
  have i: "2 < length (computeMonthlyHistory ?txs ?pr)" unfolding h by simp
  note t = monthly_history_return [of ?txs ?pr 2, THEN conjunct2, THEN conjunct2,
      THEN conjunct2, THEN conjunct1, rule_format, OF i]
  have "entry.return (computeMonthlyHistory ?txs ?pr ! 2) = - 200" unfolding h by simp
  with t h i t2 t3 show ?thesis by simp
qed

text \<open>
  C9, as the code has it. \<^verbatim>\<open>computeTotals\<close> adds the per-asset summaries up column by
  column with double additions, in key order, from 0; the empty summary gives totals that
  are all 0. A rearrangement of the summary gives the same totals whenever the double sums
  are the exact sums for both orders, and they are for every order when the amounts are
  whole numbers that add up, in absolute value, to less than \<open>2 ^ 53\<close> in each column.
  When an addition rounds, the totals can depend on the order.
\<close>

theorem computeTotals_order_when_exact:
  "computeTotals [] =
     \<lparr>totals.invested = 0, totals.value = 0, totals.realised = 0,
      totals.unrealised = 0, totals.pnl = 0\<rparr> \<and>
   (mset ys = mset summ \<and> computeTotals ys = exactTotals ys \<and>
    computeTotals summ = exactTotals summ \<longrightarrow> computeTotals ys = computeTotals summ) \<and>
   (mset ys = mset summ \<and> wholeAmounts summ \<longrightarrow>
      computeTotals summ = exactTotals summ \<and> computeTotals ys = computeTotals summ)"
proof (intro conjI impI)
  show "computeTotals [] =
     \<lparr>totals.invested = 0, totals.value = 0, totals.realised = 0,
      totals.unrealised = 0, totals.pnl = 0\<rparr>"
    by (simp add: computeTotals_def)
next
  assume "mset ys = mset summ \<and> computeTotals ys = exactTotals ys \<and>
    computeTotals summ = exactTotals summ"
  then show "computeTotals ys = computeTotals summ"
    using exactTotals_mset [of ys summ] by simp
next
  assume h: "mset ys = mset summ \<and> wholeAmounts summ"
  then have w: "wholeAmounts ys" using wholeAmounts_mset [of ys summ] by simp
  from h show e: "computeTotals summ = exactTotals summ" by (simp add: wholeAmounts_exact)
  from w have "computeTotals ys = exactTotals ys" by (rule wholeAmounts_exact)
  with e h show "computeTotals ys = computeTotals summ"
    using exactTotals_mset [of ys summ] by simp
qed

theorem computeTotals_order_when_exact_witness:
  "(mset [(''ETH'', \<lparr>summary.quantity = 1, invested = 100, currentPrice = 0, value = 0,
           realised = 0, unrealised = - 100, pnl = - 100, costAvg = 100,
           pnlPercent = Some (- 100)\<rparr>), (''BTC'', \<lparr>summary.quantity = 0, invested = 0, currentPrice = 150, value = 0,
           realised = 50, unrealised = 0, pnl = 50, costAvg = 0, pnlPercent = None\<rparr>)] = mset [(''BTC'', \<lparr>summary.quantity = 0, invested = 0, currentPrice = 150, value = 0,
           realised = 50, unrealised = 0, pnl = 50, costAvg = 0, pnlPercent = None\<rparr>), (''ETH'', \<lparr>summary.quantity = 1, invested = 100, currentPrice = 0, value = 0,
           realised = 0, unrealised = - 100, pnl = - 100, costAvg = 100,
           pnlPercent = Some (- 100)\<rparr>)] \<and>
    wholeAmounts [(''BTC'', \<lparr>summary.quantity = 0, invested = 0, currentPrice = 150, value = 0,
           realised = 50, unrealised = 0, pnl = 50, costAvg = 0, pnlPercent = None\<rparr>), (''ETH'', \<lparr>summary.quantity = 1, invested = 100, currentPrice = 0, value = 0,
           realised = 0, unrealised = - 100, pnl = - 100, costAvg = 100,
           pnlPercent = Some (- 100)\<rparr>)]) \<and>
   computeTotals [(''ETH'', \<lparr>summary.quantity = 1, invested = 100, currentPrice = 0, value = 0,
           realised = 0, unrealised = - 100, pnl = - 100, costAvg = 100,
           pnlPercent = Some (- 100)\<rparr>), (''BTC'', \<lparr>summary.quantity = 0, invested = 0, currentPrice = 150, value = 0,
           realised = 50, unrealised = 0, pnl = 50, costAvg = 0, pnlPercent = None\<rparr>)] =
     \<lparr>totals.invested = 100, value = 0, realised = 50, unrealised = - 100, pnl = - 50\<rparr> \<and>
   computeTotals [(''BTC'', \<lparr>summary.quantity = 0, invested = 0, currentPrice = 150, value = 0,
           realised = 50, unrealised = 0, pnl = 50, costAvg = 0, pnlPercent = None\<rparr>), (''ETH'', \<lparr>summary.quantity = 1, invested = 100, currentPrice = 0, value = 0,
           realised = 0, unrealised = - 100, pnl = - 100, costAvg = 100,
           pnlPercent = Some (- 100)\<rparr>)] =
     \<lparr>totals.invested = 100, value = 0, realised = 50, unrealised = - 100, pnl = - 50\<rparr> \<and>
   exactTotals [(''BTC'', \<lparr>summary.quantity = 0, invested = 0, currentPrice = 150, value = 0,
           realised = 50, unrealised = 0, pnl = 50, costAvg = 0, pnlPercent = None\<rparr>), (''ETH'', \<lparr>summary.quantity = 1, invested = 100, currentPrice = 0, value = 0,
           realised = 0, unrealised = - 100, pnl = - 100, costAvg = 100,
           pnlPercent = Some (- 100)\<rparr>)] =
     \<lparr>totals.invested = 100, value = 0, realised = 50, unrealised = - 100, pnl = - 50\<rparr>"
proof -
  let ?xs = "[(''BTC'', \<lparr>summary.quantity = 0, invested = 0, currentPrice = 150, value = 0,
           realised = 50, unrealised = 0, pnl = 50, costAvg = 0, pnlPercent = None\<rparr>), (''ETH'', \<lparr>summary.quantity = 1, invested = 100, currentPrice = 0, value = 0,
           realised = 0, unrealised = - 100, pnl = - 100, costAvg = 100,
           pnlPercent = Some (- 100)\<rparr>)]"
  let ?ys = "[(''ETH'', \<lparr>summary.quantity = 1, invested = 100, currentPrice = 0, value = 0,
           realised = 0, unrealised = - 100, pnl = - 100, costAvg = 100,
           pnlPercent = Some (- 100)\<rparr>), (''BTC'', \<lparr>summary.quantity = 0, invested = 0, currentPrice = 150, value = 0,
           realised = 50, unrealised = 0, pnl = 50, costAvg = 0, pnlPercent = None\<rparr>)]"
  have h: "mset ?ys = mset ?xs \<and> wholeAmounts ?xs"
    by (simp add: wholeAmounts_def wholeColumn_def whole_def)
  have x: "exactTotals ?xs =
     \<lparr>totals.invested = 100, value = 0, realised = 50, unrealised = - 100, pnl = - 50\<rparr>"
    by (simp add: exactTotals_def)
  have y: "exactTotals ?ys = exactTotals ?xs" by (simp add: exactTotals_def)
  have g: "mset ?ys = mset ?xs \<and> computeTotals ?ys = exactTotals ?ys \<and>
    computeTotals ?xs = exactTotals ?xs"
    using computeTotals_order_when_exact [of ?ys ?xs, THEN conjunct2, THEN conjunct2,
        rule_format, OF h] h y
    by simp
  from computeTotals_order_when_exact [of ?ys ?xs, THEN conjunct2, THEN conjunct1,
      rule_format, OF g] g h x
  show ?thesis by simp
qed

text \<open>
  Three assets bought at their current price, one for \<open>2 ^ 53\<close> and two for 1, in two
  orders of their dates and so of the keys of the summary. Adding the large amount first
  loses each unit to rounding; adding it last does not.
\<close>

theorem computeTotals_order_counterexample:
  "computePnL
     [buy ''2024-01-01'' ''BTC'' 1 9007199254740992, buy ''2024-01-02'' ''ETH'' 1 1,
      buy ''2024-01-03'' ''SOL'' 1 1]
     [''BTC'' \<mapsto> 9007199254740992, ''ETH'' \<mapsto> 1, ''SOL'' \<mapsto> 1] =
     [(''BTC'', \<lparr>summary.quantity = 1, invested = 9007199254740992,
            currentPrice = 9007199254740992, value = 9007199254740992, realised = 0,
            unrealised = 0, pnl = 0, costAvg = 9007199254740992, pnlPercent = Some 0\<rparr>),
      (''ETH'', \<lparr>summary.quantity = 1, invested = 1, currentPrice = 1, value = 1,
            realised = 0, unrealised = 0, pnl = 0, costAvg = 1, pnlPercent = Some 0\<rparr>),
      (''SOL'', \<lparr>summary.quantity = 1, invested = 1, currentPrice = 1, value = 1,
            realised = 0, unrealised = 0, pnl = 0, costAvg = 1, pnlPercent = Some 0\<rparr>)] \<and>
   computePnL
     [buy ''2024-01-01'' ''ETH'' 1 1, buy ''2024-01-02'' ''SOL'' 1 1,
      buy ''2024-01-03'' ''BTC'' 1 9007199254740992]
     [''BTC'' \<mapsto> 9007199254740992, ''ETH'' \<mapsto> 1, ''SOL'' \<mapsto> 1] =
     [(''ETH'', \<lparr>summary.quantity = 1, invested = 1, currentPrice = 1, value = 1,
            realised = 0, unrealised = 0, pnl = 0, costAvg = 1, pnlPercent = Some 0\<rparr>),
      (''SOL'', \<lparr>summary.quantity = 1, invested = 1, currentPrice = 1, value = 1,
            realised = 0, unrealised = 0, pnl = 0, costAvg = 1, pnlPercent = Some 0\<rparr>),
      (''BTC'', \<lparr>summary.quantity = 1, invested = 9007199254740992,
            currentPrice = 9007199254740992, value = 9007199254740992, realised = 0,
            unrealised = 0, pnl = 0, costAvg = 9007199254740992, pnlPercent = Some 0\<rparr>)] \<and>
   totals.invested (computeTotals
     [(''BTC'', \<lparr>summary.quantity = 1, invested = 9007199254740992,
            currentPrice = 9007199254740992, value = 9007199254740992, realised = 0,
            unrealised = 0, pnl = 0, costAvg = 9007199254740992, pnlPercent = Some 0\<rparr>),
      (''ETH'', \<lparr>summary.quantity = 1, invested = 1, currentPrice = 1, value = 1,
            realised = 0, unrealised = 0, pnl = 0, costAvg = 1, pnlPercent = Some 0\<rparr>),
      (''SOL'', \<lparr>summary.quantity = 1, invested = 1, currentPrice = 1, value = 1,
            realised = 0, unrealised = 0, pnl = 0, costAvg = 1, pnlPercent = Some 0\<rparr>)]) = 9007199254740992 \<and>
   totals.invested (computeTotals
     [(''ETH'', \<lparr>summary.quantity = 1, invested = 1, currentPrice = 1, value = 1,
            realised = 0, unrealised = 0, pnl = 0, costAvg = 1, pnlPercent = Some 0\<rparr>),
      (''SOL'', \<lparr>summary.quantity = 1, invested = 1, currentPrice = 1, value = 1,
            realised = 0, unrealised = 0, pnl = 0, costAvg = 1, pnlPercent = Some 0\<rparr>),
      (''BTC'', \<lparr>summary.quantity = 1, invested = 9007199254740992,
            currentPrice = 9007199254740992, value = 9007199254740992, realised = 0,
            unrealised = 0, pnl = 0, costAvg = 9007199254740992, pnlPercent = Some 0\<rparr>)]) = 9007199254740994"
proof -
  have a: "doubleAdd 0 9007199254740992 = 9007199254740992"
    "doubleAdd 9007199254740992 1 = 9007199254740992"
    "doubleAdd 2 9007199254740992 = 9007199254740994"
    by code_simp+
  have b: "doubleAdd 0 0 = 0" "doubleAdd 0 1 = 1" "doubleAdd 1 1 = 2"
    by (simp_all add: doubleAdd_eval)
  have c: "computePnL
     [buy ''2024-01-01'' ''BTC'' 1 9007199254740992, buy ''2024-01-02'' ''ETH'' 1 1,
      buy ''2024-01-03'' ''SOL'' 1 1]
     [''BTC'' \<mapsto> 9007199254740992, ''ETH'' \<mapsto> 1, ''SOL'' \<mapsto> 1] =
     [(''BTC'', \<lparr>summary.quantity = 1, invested = 9007199254740992,
            currentPrice = 9007199254740992, value = 9007199254740992, realised = 0,
            unrealised = 0, pnl = 0, costAvg = 9007199254740992, pnlPercent = Some 0\<rparr>),
      (''ETH'', \<lparr>summary.quantity = 1, invested = 1, currentPrice = 1, value = 1,
            realised = 0, unrealised = 0, pnl = 0, costAvg = 1, pnlPercent = Some 0\<rparr>),
      (''SOL'', \<lparr>summary.quantity = 1, invested = 1, currentPrice = 1, value = 1,
            realised = 0, unrealised = 0, pnl = 0, costAvg = 1, pnlPercent = Some 0\<rparr>)]"
    by (simp add: summary_eval)
  have d: "computePnL
     [buy ''2024-01-01'' ''ETH'' 1 1, buy ''2024-01-02'' ''SOL'' 1 1,
      buy ''2024-01-03'' ''BTC'' 1 9007199254740992]
     [''BTC'' \<mapsto> 9007199254740992, ''ETH'' \<mapsto> 1, ''SOL'' \<mapsto> 1] =
     [(''ETH'', \<lparr>summary.quantity = 1, invested = 1, currentPrice = 1, value = 1,
            realised = 0, unrealised = 0, pnl = 0, costAvg = 1, pnlPercent = Some 0\<rparr>),
      (''SOL'', \<lparr>summary.quantity = 1, invested = 1, currentPrice = 1, value = 1,
            realised = 0, unrealised = 0, pnl = 0, costAvg = 1, pnlPercent = Some 0\<rparr>),
      (''BTC'', \<lparr>summary.quantity = 1, invested = 9007199254740992,
            currentPrice = 9007199254740992, value = 9007199254740992, realised = 0,
            unrealised = 0, pnl = 0, costAvg = 9007199254740992, pnlPercent = Some 0\<rparr>)]"
    by (simp add: summary_eval)
  show ?thesis unfolding c d by (simp add: computeTotals_def a b)
qed

text \<open>
  C10. For a list of transactions that is not empty, the history is not empty, the
  filter for the month of its last entry keeps every transaction, and the last entry has
  the invested, value, realised, unrealised and pnl of the totals of the summary of all
  transactions.
\<close>

theorem last_history_row_is_totals:
  assumes "txs \<noteq> []"
  shows "computeMonthlyHistory txs prices \<noteq> [] \<and>
     uptoMonth txs (entry.month (last (computeMonthlyHistory txs prices))) = txs \<and>
     (let e = last (computeMonthlyHistory txs prices);
          t = computeTotals (computePnL txs prices)
      in entry.invested e = totals.invested t \<and> entry.value e = totals.value t \<and>
         entry.realised e = totals.realised t \<and> entry.unrealised e = totals.unrealised t \<and>
         entry.pnl e = totals.pnl t)"
proof -
  from assms have m: "months txs \<noteq> []"
    using months_props [of txs] by (cases txs) auto
  then have n: "computeMonthlyHistory txs prices \<noteq> []"
    using historyLoop_length [of txs prices 0 0 "months txs"]
    by (auto simp: computeMonthlyHistory_def simp del: historyLoop_length)
  from m have i: "length (months txs) - 1 < length (months txs)" by (cases "months txs") simp_all
  have l: "last (computeMonthlyHistory txs prices) =
           computeMonthlyHistory txs prices ! (length (months txs) - 1)"
    using n by (simp add: last_conv_nth computeMonthlyHistory_def)
  have k: "months txs ! (length (months txs) - 1) = last (months txs)"
    using m by (simp add: last_conv_nth)
  have t: "totalsUpto txs prices (last (months txs)) = computeTotals (computePnL txs prices)"
    by (simp only: totalsUpto_def uptoMonth_last [OF assms])
  note f = historyLoop_fields [OF i, of txs prices 0 0, folded computeMonthlyHistory_def,
      unfolded k t, folded l]
  from f have "uptoMonth txs (entry.month (last (computeMonthlyHistory txs prices))) = txs"
    by (simp add: uptoMonth_last [OF assms])
  with n f show ?thesis by (simp add: Let_def)
qed

theorem last_history_row_is_totals_witness:
  "[buy ''2024-01-01'' ''BTC'' 1 100, sell ''2024-02-02'' ''BTC'' 1 150,
    buy ''2024-03-03'' ''ETH'' 1 100] \<noteq> [] \<and>
   computeTotals (computePnL
     [buy ''2024-01-01'' ''BTC'' 1 100, sell ''2024-02-02'' ''BTC'' 1 150,
      buy ''2024-03-03'' ''ETH'' 1 100] [''BTC'' \<mapsto> 150]) =
     \<lparr>totals.invested = 100, value = 0, realised = 50, unrealised = - 100, pnl = - 50\<rparr> \<and>
   entry.invested (last (computeMonthlyHistory
     [buy ''2024-01-01'' ''BTC'' 1 100, sell ''2024-02-02'' ''BTC'' 1 150,
      buy ''2024-03-03'' ''ETH'' 1 100] [''BTC'' \<mapsto> 150])) = 100 \<and>
   entry.realised (last (computeMonthlyHistory
     [buy ''2024-01-01'' ''BTC'' 1 100, sell ''2024-02-02'' ''BTC'' 1 150,
      buy ''2024-03-03'' ''ETH'' 1 100] [''BTC'' \<mapsto> 150])) = 50 \<and>
   entry.pnl (last (computeMonthlyHistory
     [buy ''2024-01-01'' ''BTC'' 1 100, sell ''2024-02-02'' ''BTC'' 1 150,
      buy ''2024-03-03'' ''ETH'' 1 100] [''BTC'' \<mapsto> 150])) = - 50"
proof -
  let ?txs = "[buy ''2024-01-01'' ''BTC'' 1 100, sell ''2024-02-02'' ''BTC'' 1 150,
      buy ''2024-03-03'' ''ETH'' 1 100]"
  let ?pr = "[''BTC'' \<mapsto> (150::real)]"
  have h: "?txs \<noteq> []" by simp
  have v: "computeTotals (computePnL ?txs ?pr) =
     \<lparr>totals.invested = 100, value = 0, realised = 50, unrealised = - 100, pnl = - 50\<rparr>"
    by (simp add: computeTotals_def doubleAdd_eval summary_eval)
  from last_history_row_is_totals [OF h, of ?pr] h v
  show ?thesis by (simp add: Let_def)
qed

end
